theory Spec2Isabelle
  imports Complex_Main "HOL-Library.AList" "HOL-Library.Product_Lexorder" "HOL-Library.Log_Nat"
begin

section \<open>Data model\<close>

text \<open>
  The program is a monthly rotation backtester (\<^verbatim>\<open>main.py\<close>). Prices, cash and share
  counts are IEEE doubles; a double is modelled by the real number it denotes. The
  purchase (lines 97 to 100) is modelled with the rounding of every operation
  (\<open>round_double\<close> below), because what it leaves in cash depends on that rounding.
  The other operations are left unrounded: the properties stated about them say which
  expression is evaluated, on which ledger and in which order, and do not depend on the
  rounding. A missing table cell (NaN) is \<open>None\<close>; the not-a-time marker NaT returned
  by an as-of lookup is \<open>None\<close> as well; the score \<^verbatim>\<open>-np.inf\<close> is the constructor
  \<open>NegInf\<close>.

  A timestamp is a calendar day (year, month, day): every timestamp of a run is at
  midnight. Triples are ordered lexicographically, which is the order of the calendar.
\<close>

type_synonym ticker = string
type_synonym date = "int \<times> int \<times> int"

datatype error = KeyError | IndexError | ValueError | NaNPrice

definition bind_err :: "error + 'a \<Rightarrow> ('a \<Rightarrow> error + 'b) \<Rightarrow> error + 'b" where
  "bind_err m f = (case m of Inl e \<Rightarrow> Inl e | Inr x \<Rightarrow> f x)"

text \<open>
  Rounding to the nearest double, ties to the even significand: \<open>binary_exponent x\<close>
  is the \<open>e\<close> with \<open>2^e \<le> |x| < 2^(e+1)\<close>, and the result is the multiple of
  \<open>2^(e - 52)\<close> nearest to \<open>x\<close>. Overflow and subnormal numbers are left out: the
  amounts of a run are far from both ranges.
\<close>

definition round_even :: "real \<Rightarrow> int" where
  "round_even r =
     (let f = \<lfloor>r\<rfloor>
      in if r - of_int f < 1 / 2 then f
         else if 1 / 2 < r - of_int f then f + 1
         else if even f then f else f + 1)"

definition binary_exponent :: "real \<Rightarrow> int" where
  "binary_exponent x =
     (if 1 \<le> \<bar>x\<bar> then bitlen \<lfloor>\<bar>x\<bar>\<rfloor> - 1 else - bitlen (\<lceil>1 / \<bar>x\<bar>\<rceil> - 1))"

definition round_double :: "real \<Rightarrow> real" where
  "round_double x =
     (if x = 0 then 0
      else of_int (round_even (x / 2 powi (binary_exponent x - 52))) * 2 powi (binary_exponent x - 52))"

text \<open>
  \<^verbatim>\<open>a // b\<close> on doubles: the floor of the exact quotient of the two doubles (it is
  computed from the remainder \<^verbatim>\<open>fmod\<close>, which is exact), itself a double for the
  quantities of a run.
\<close>

definition floor_divide :: "real \<Rightarrow> real \<Rightarrow> real" where
  "floor_divide a b = of_int \<lfloor>a / b\<rfloor>"

text \<open>
  \<^verbatim>\<open>date - pd.DateOffset(months=k)\<close>: the month moves back by \<open>k\<close>, the day is clipped
  to the length of the month reached.
\<close>

definition is_leap :: "int \<Rightarrow> bool" where
  "is_leap y = (y mod 4 = 0 \<and> (y mod 100 \<noteq> 0 \<or> y mod 400 = 0))"

definition days_in_month :: "int \<Rightarrow> int \<Rightarrow> int" where
  "days_in_month y m =
     (if m = 2 then (if is_leap y then 29 else 28)
      else if m = 4 \<or> m = 6 \<or> m = 9 \<or> m = 11 then 30 else 31)"

definition sub_months :: "date \<Rightarrow> int \<Rightarrow> date" where
  "sub_months dt k =
     (case dt of (y, m, d) \<Rightarrow>
        let total = y * 12 + (m - 1) - k;
            y' = total div 12;
            m' = total mod 12 + 1
        in (y', m', min d (days_in_month y' m')))"

text \<open>
  The price table \<^verbatim>\<open>data\<close> is a pandas DataFrame: a row index of dates, one column per
  ticker, and a cell that is a price or NaN.
\<close>

record dataframe =
  index :: "date list"
  columns :: "ticker list"
  cell :: "ticker \<Rightarrow> date \<Rightarrow> real option"

text \<open>
  \<^verbatim>\<open>get_stock_data\<close> downloads one series per ticker and joins them into one table whose
  columns are the requested tickers. The download is outside the program; what it
  returned is the parameter \<open>market\<close> (the joined row index and the cells).
\<close>

definition get_stock_data :: "date list \<times> (ticker \<Rightarrow> date \<Rightarrow> real option) \<Rightarrow> ticker list \<Rightarrow> dataframe" where
  "get_stock_data market tickers = \<lparr>index = fst market, columns = tickers, cell = snd market\<rparr>"

section \<open>As-of resolution: \<^verbatim>\<open>get_closest_date\<close>\<close>

text \<open>\<^verbatim>\<open>data[ticker].dropna().index\<close>: the dates at which the ticker has a price.\<close>

definition dropna_index :: "dataframe \<Rightarrow> ticker \<Rightarrow> date list" where
  "dropna_index data t = filter (\<lambda>d. cell data t d \<noteq> None) (index data)"

text \<open>
  \<^verbatim>\<open>dates.asof(date)\<close> on an ascending index: the last label that is not after
  \<open>date\<close>, NaT when there is none.
\<close>

definition asof :: "date list \<Rightarrow> date \<Rightarrow> date option" where
  "asof dates d = (case filter (\<lambda>x. x \<le> d) dates of [] \<Rightarrow> None | y # ys \<Rightarrow> Some (last (y # ys)))"

definition get_closest_date :: "dataframe \<Rightarrow> ticker \<Rightarrow> date \<Rightarrow> error + date option" where
  "get_closest_date data t d =
     (if t \<notin> set (columns data) then Inl KeyError
      else let dates = dropna_index data t
           in if d \<notin> set dates then Inr (asof dates d) else Inr (Some d))"

text \<open>
  \<^verbatim>\<open>data.loc[d, ticker]\<close>: KeyError when the label is NaT or not a row of the table, or
  the ticker is not a column; otherwise the cell, which may be NaN.
\<close>

definition loc :: "dataframe \<Rightarrow> date option \<Rightarrow> ticker \<Rightarrow> error + real option" where
  "loc data d t =
     (case d of
        None \<Rightarrow> Inl KeyError
      | Some d' \<Rightarrow>
          if d' \<in> set (index data) \<and> t \<in> set (columns data) then Inr (cell data t d')
          else Inl KeyError)"

section \<open>Momentum scores: \<^verbatim>\<open>calculate_momentum_scores\<close>\<close>

datatype score = NegInf | Score real

instantiation score :: linorder
begin

fun less_eq_score :: "score \<Rightarrow> score \<Rightarrow> bool" where
  "less_eq_score NegInf _ = True"
| "less_eq_score (Score a) NegInf = False"
| "less_eq_score (Score a) (Score b) = (a \<le> b)"

definition less_score :: "score \<Rightarrow> score \<Rightarrow> bool" where
  "less_score x y = (x \<le> y \<and> \<not> y \<le> x)"

instance
proof
  fix x y z :: score
  show "(x < y) = (x \<le> y \<and> \<not> y \<le> x)" by (simp add: less_score_def)
  show "x \<le> x" by (cases x) simp_all
  show "x \<le> y \<Longrightarrow> y \<le> z \<Longrightarrow> x \<le> z" by (cases x; cases y; cases z) simp_all
  show "x \<le> y \<Longrightarrow> y \<le> x \<Longrightarrow> x = y" by (cases x; cases y) simp_all
  show "x \<le> y \<or> y \<le> x" by (cases x; cases y) auto
qed

end

text \<open>The body of the loop over the columns (lines 32 to 51): the score of one ticker.\<close>

definition ticker_score :: "dataframe \<Rightarrow> date \<Rightarrow> ticker \<Rightarrow> error + score" where
  "ticker_score data date t =
     bind_err (get_closest_date data t date) (\<lambda>closest_date_now.
     bind_err (get_closest_date data t (sub_months date 1)) (\<lambda>closest_date_1m.
     bind_err (get_closest_date data t (sub_months date 3)) (\<lambda>closest_date_3m.
     bind_err (get_closest_date data t (sub_months date 6)) (\<lambda>closest_date_6m.
     bind_err (get_closest_date data t (sub_months date 12)) (\<lambda>closest_date_12m.
     bind_err (loc data closest_date_now t) (\<lambda>price_now.
     bind_err (loc data closest_date_1m t) (\<lambda>price_1m.
     bind_err (loc data closest_date_3m t) (\<lambda>price_3m.
     bind_err (loc data closest_date_6m t) (\<lambda>price_6m.
     bind_err (loc data closest_date_12m t) (\<lambda>price_12m.
       Inr (case (price_now, price_1m, price_3m, price_6m, price_12m) of
              (Some p0, Some p1, Some p3, Some p6, Some p12) \<Rightarrow>
                Score ((p0 / p1 - 1) * 12 + (p0 / p3 - 1) * 4 + (p0 / p6 - 1) * 2 + (p0 / p12 - 1) * 1)
            | _ \<Rightarrow> NegInf)))))))))))"

fun scores_loop :: "dataframe \<Rightarrow> date \<Rightarrow> ticker list \<Rightarrow> (ticker \<times> score) list \<Rightarrow> error + (ticker \<times> score) list" where
  "scores_loop data date [] momentum_scores = Inr momentum_scores"
| "scores_loop data date (t # ts) momentum_scores =
     bind_err (ticker_score data date t) (\<lambda>s.
       scores_loop data date ts (AList.update t s momentum_scores))"

definition calculate_momentum_scores :: "dataframe \<Rightarrow> date \<Rightarrow> error + (ticker \<times> score) list" where
  "calculate_momentum_scores data date = scores_loop data date (columns data) []"

section \<open>The trading simulator: \<^verbatim>\<open>simulate_trading\<close>\<close>

definition attack_assets :: "ticker list" where
  "attack_assets = [''SPY'', ''EFA'', ''EEM'', ''AGG'', ''QQQ'']"

definition safe_assets :: "ticker list" where
  "safe_assets = [''LQD'', ''IEF'', ''SHY'']"

text \<open>
  The two strategy labels of the source are Korean strings: \<open>SafeInvest\<close> is the label
  set on line 79 (investment in the safe assets), \<open>AttackInvest\<close> the one set on line 82
  (investment in the attack assets).
\<close>

datatype strategy = SafeInvest | AttackInvest

text \<open>
  A Python dict is an association list in insertion order; \<^verbatim>\<open>d[k]\<close> raises KeyError on
  a missing key, \<^verbatim>\<open>d.get(k, v)\<close> returns the default, \<^verbatim>\<open>d[k] = v\<close> is
  \<^const>\<open>AList.update\<close>.
\<close>

definition dict_get :: "('k \<times> 'v) list \<Rightarrow> 'k \<Rightarrow> error + 'v" where
  "dict_get m k = (case map_of m k of None \<Rightarrow> Inl KeyError | Some v \<Rightarrow> Inr v)"

definition dict_get_default :: "('k \<times> 'v) list \<Rightarrow> 'k \<Rightarrow> 'v \<Rightarrow> 'v" where
  "dict_get_default m k v = (case map_of m k of None \<Rightarrow> v | Some w \<Rightarrow> w)"

text \<open>
  \<^verbatim>\<open>max(xs, key=f)\<close>: the running maximum is replaced only by a strictly greater key;
  an empty argument raises ValueError.
\<close>

fun max_loop :: "('a \<Rightarrow> 'k::linorder) \<Rightarrow> 'a \<Rightarrow> 'a list \<Rightarrow> 'a" where
  "max_loop key best [] = best"
| "max_loop key best (x # xs) = max_loop key (if key x > key best then x else best) xs"

definition py_max :: "('a \<Rightarrow> 'k::linorder) \<Rightarrow> 'a list \<Rightarrow> error + 'a" where
  "py_max key xs = (case xs of [] \<Rightarrow> Inl ValueError | x # ys \<Rightarrow> Inr (max_loop key x ys))"

text \<open>
  \<^verbatim>\<open>all(momentum_scores[asset] <= 0 for asset in attack_assets)\<close>: stops at the first
  asset whose score is positive.
\<close>

fun all_nonpositive :: "(ticker \<times> score) list \<Rightarrow> ticker list \<Rightarrow> error + bool" where
  "all_nonpositive momentum_scores [] = Inr True"
| "all_nonpositive momentum_scores (a # as) =
     bind_err (dict_get momentum_scores a) (\<lambda>v.
       if v \<le> Score 0 then all_nonpositive momentum_scores as else Inr False)"

text \<open>Lines 74 to 82: the two best assets and the choice between them.\<close>

definition select_asset :: "(ticker \<times> score) list \<Rightarrow> error + ticker \<times> strategy" where
  "select_asset momentum_scores =
     bind_err (py_max (\<lambda>x. dict_get_default momentum_scores x NegInf) attack_assets) (\<lambda>best_attack_asset.
     bind_err (py_max (\<lambda>x. dict_get_default momentum_scores x NegInf) safe_assets) (\<lambda>best_safe_asset.
     bind_err (all_nonpositive momentum_scores attack_assets) (\<lambda>b.
       Inr (if b then (best_safe_asset, SafeInvest) else (best_attack_asset, AttackInvest)))))"

text \<open>
  The price a trade uses: \<^verbatim>\<open>data.loc[get_closest_date(data, ticker, date), ticker]\<close>.
  The ledger is real-valued, so a NaN read here stops the model with \<open>NaNPrice\<close>
  instead of entering the arithmetic; \<open>NaNPrice\<close> is not an exception of the source,
  and lemma \<open>ledger_price_never_nan\<close> below shows that this branch is never taken.
\<close>

definition price_at :: "dataframe \<Rightarrow> ticker \<Rightarrow> date \<Rightarrow> error + real option" where
  "price_at data t date = bind_err (get_closest_date data t date) (\<lambda>closest_date. loc data closest_date t)"

definition ledger_price :: "dataframe \<Rightarrow> ticker \<Rightarrow> date \<Rightarrow> error + real" where
  "ledger_price data t date =
     bind_err (price_at data t date) (\<lambda>p. case p of None \<Rightarrow> Inl NaNPrice | Some v \<Rightarrow> Inr v)"

type_synonym dict = "(ticker \<times> real) list"

text \<open>
  Lines 85 to 91, the sale: the loop runs over the keys of the portfolio and changes
  values only.
\<close>

fun sell :: "dataframe \<Rightarrow> date \<Rightarrow> real \<Rightarrow> ticker list \<Rightarrow> real \<times> dict \<Rightarrow> error + real \<times> dict" where
  "sell data date sell_commission [] (cash, portfolio) = Inr (cash, portfolio)"
| "sell data date sell_commission (t # ts) (cash, portfolio) =
     bind_err (dict_get portfolio t) (\<lambda>q.
       if q > 0 then
         bind_err (ledger_price data t date) (\<lambda>unit_price.
           sell data date sell_commission ts
             (cash + q * unit_price * (1 - sell_commission), AList.update t 0 portfolio))
       else sell data date sell_commission ts (cash, portfolio))"

text \<open>
  Lines 94 to 100, the purchase, in double arithmetic. \<^verbatim>\<open>if best_asset:\<close> tests that
  the string is not empty. Line 97 divides by the rounded product
  \<^verbatim>\<open>unit_price * (1 + buy_commission)\<close>; line 98 multiplies from the left,
  \<^verbatim>\<open>(shares_to_buy * unit_price) * (1 + buy_commission)\<close>, and rounds after each
  product, so the amount debited on line 100 is not the quantity times the divisor of
  line 97. The arguments stand for the doubles the program holds: a commission written
  \<^verbatim>\<open>0.1\<close> is the double nearest to \<open>1 / 10\<close>. A divisor of 0, on which the program
  computes an infinity or NaN, is outside the model.
\<close>

definition buy :: "dataframe \<Rightarrow> date \<Rightarrow> real \<Rightarrow> ticker \<Rightarrow> real \<times> dict \<Rightarrow> error + real \<times> dict" where
  "buy data date buy_commission best_asset st =
     (case st of (cash, portfolio) \<Rightarrow>
        if best_asset \<noteq> [] then
          bind_err (ledger_price data best_asset date) (\<lambda>unit_price.
            let shares_to_buy =
                  floor_divide cash (round_double (unit_price * round_double (1 + buy_commission)));
                total_price =
                  round_double (round_double (shares_to_buy * unit_price)
                                * round_double (1 + buy_commission))
            in bind_err (dict_get portfolio best_asset) (\<lambda>held.
                 Inr (round_double (cash - total_price),
                      AList.update best_asset (round_double (held + shares_to_buy)) portfolio)))
        else Inr (cash, portfolio))"

text \<open>Line 102: \<^verbatim>\<open>sum\<close> adds the terms to 0 from left to right.\<close>

fun holdings_sum :: "dataframe \<Rightarrow> date \<Rightarrow> dict \<Rightarrow> ticker list \<Rightarrow> real \<Rightarrow> error + real" where
  "holdings_sum data date portfolio [] acc = Inr acc"
| "holdings_sum data date portfolio (t # ts) acc =
     bind_err (dict_get portfolio t) (\<lambda>q.
     bind_err (ledger_price data t date) (\<lambda>p.
       holdings_sum data date portfolio ts (acc + q * p)))"

record trade_record =
  tr_date :: date
  tr_strategy :: strategy
  tr_best_asset :: ticker
  tr_cash :: real
  tr_total_value :: real
  tr_current_return :: real
  tr_portfolio :: nat

text \<open>
  Dict objects live in a store: an address is a position in \<open>heap\<close>. The variable
  \<^verbatim>\<open>portfolio\<close> is bound once (line 64) to the first object allocated and never
  rebound; an assignment \<^verbatim>\<open>portfolio[k] = v\<close> overwrites the object at that address,
  \<^verbatim>\<open>portfolio.copy()\<close> allocates a new object. A trade record holds the address of its
  snapshot. In every state of the program the live portfolio exists, that is
  \<open>heap s \<noteq> []\<close>; the properties below are stated for such states.
\<close>

definition portfolio_addr :: nat where
  "portfolio_addr = 0"

record sim_state =
  cash :: real
  heap :: "dict list"
  value_history :: "real list"
  trade_history :: "trade_record list"

text \<open>Lines 72 to 113: one pass of the loop over the rebalancing dates.\<close>

definition step :: "dataframe \<Rightarrow> real \<Rightarrow> real \<Rightarrow> real \<Rightarrow> sim_state \<Rightarrow> date \<Rightarrow> error + sim_state" where
  "step data initial_cash buy_commission sell_commission s date =
     bind_err (calculate_momentum_scores data date) (\<lambda>momentum_scores.
     bind_err (select_asset momentum_scores) (\<lambda>(best_asset, strategy).
     bind_err (sell data date sell_commission (map fst (heap s ! portfolio_addr))
                 (cash s, heap s ! portfolio_addr)) (\<lambda>(cash1, portfolio1).
     bind_err (buy data date buy_commission best_asset (cash1, portfolio1)) (\<lambda>(cash2, portfolio2).
     bind_err (holdings_sum data date portfolio2 (map fst portfolio2) 0) (\<lambda>held_value.
       let total_value = cash2 + held_value
       in Inr \<lparr>cash = cash2,
               heap = (heap s)[portfolio_addr := portfolio2] @ [portfolio2],
               value_history = value_history s @ [total_value],
               trade_history = trade_history s @
                 [\<lparr>tr_date = date, tr_strategy = strategy, tr_best_asset = best_asset,
                   tr_cash = cash2, tr_total_value = total_value,
                   tr_current_return = ((total_value / initial_cash) - 1) * 100,
                   tr_portfolio = length (heap s)\<rparr>]\<rparr>)))))"

fun run_steps :: "dataframe \<Rightarrow> real \<Rightarrow> real \<Rightarrow> real \<Rightarrow> date list \<Rightarrow> sim_state \<Rightarrow> error + sim_state" where
  "run_steps data initial_cash buy_commission sell_commission [] s = Inr s"
| "run_steps data initial_cash buy_commission sell_commission (date # dates) s =
     bind_err (step data initial_cash buy_commission sell_commission s date)
       (run_steps data initial_cash buy_commission sell_commission dates)"

text \<open>
  Lines 57 to 116. The rebalancing dates \<^verbatim>\<open>pd.date_range(start, end, freq=...)\<close> are the
  parameter \<open>dates\<close>.
\<close>

definition initial_state :: "real \<Rightarrow> sim_state" where
  "initial_state initial_cash =
     \<lparr>cash = initial_cash,
      heap = [map (\<lambda>t. (t, 0)) (attack_assets @ safe_assets)],
      value_history = [],
      trade_history = []\<rparr>"

definition simulate_loop ::
  "date list \<times> (ticker \<Rightarrow> date \<Rightarrow> real option) \<Rightarrow> date list \<Rightarrow> real \<Rightarrow> real \<Rightarrow> real \<Rightarrow> error + sim_state" where
  "simulate_loop market dates initial_cash buy_commission sell_commission =
     run_steps (get_stock_data market (attack_assets @ safe_assets)) initial_cash
       buy_commission sell_commission dates (initial_state initial_cash)"

text \<open>
  Lines 118 to 141: \<^verbatim>\<open>value_history[-1]\<close> raises IndexError on an empty history; the
  power \<^verbatim>\<open>**\<close> with a real exponent is \<open>powr\<close>. Plotting and the spreadsheet are
  left out.
\<close>

definition simulate_trading ::
  "date list \<times> (ticker \<Rightarrow> date \<Rightarrow> real option) \<Rightarrow> date list \<Rightarrow> real \<Rightarrow> real \<Rightarrow> real \<Rightarrow> error + real \<times> real" where
  "simulate_trading market dates initial_cash buy_commission sell_commission =
     bind_err (simulate_loop market dates initial_cash buy_commission sell_commission) (\<lambda>s.
       if value_history s = [] then Inl IndexError
       else let final_value = last (value_history s);
                annual_return =
                  ((final_value / initial_cash) powr (1 / (real (length dates) / 12)) - 1) * 100
            in Inr (final_value, annual_return))"

section \<open>Notions used to state the properties, and example inputs\<close>

text \<open>The dates at which a ticker has an observation: the rows whose cell is not NaN.\<close>

definition observed :: "dataframe \<Rightarrow> ticker \<Rightarrow> date set" where
  "observed data t = {x \<in> set (index data). cell data t x \<noteq> None}"

text \<open>
  The choice the specification describes: the element with the maximum key, the first
  one in the list when several reach the maximum.
\<close>

definition first_max :: "('a \<Rightarrow> 'k::linorder) \<Rightarrow> 'a list \<Rightarrow> 'a option" where
  "first_max key xs = find (\<lambda>x. \<forall>y\<in>set xs. key y \<le> key x) xs"

definition example_gap :: dataframe where
  "example_gap =
     \<lparr>index = [(2023, 1, 2), (2023, 1, 3), (2023, 1, 5)],
      columns = [''SPY'', ''LQD''],
      cell = (\<lambda>t d. if t = ''LQD'' \<and> d = (2023, 1, 3) then None else Some 100)\<rparr>"

definition example_market :: "date list \<times> (ticker \<Rightarrow> date \<Rightarrow> real option)" where
  "example_market =
     ([(2022, 3, 1), (2022, 9, 1), (2022, 12, 1), (2023, 2, 1), (2023, 3, 1)],
      \<lambda>t d. if t = ''SPY'' \<and> d = (2023, 3, 1) then Some 110 else Some 100)"

definition example_data :: dataframe where
  "example_data = get_stock_data example_market (attack_assets @ safe_assets)"

definition example_scores :: "(ticker \<times> score) list" where
  "example_scores =
     [(''SPY'', Score 0), (''EFA'', Score (- 1)), (''EEM'', NegInf), (''AGG'', Score 0),
      (''QQQ'', Score (- 2)), (''LQD'', Score 3), (''IEF'', Score 3), (''SHY'', Score 1)]"

text \<open>The price a sale or purchase of \<open>t\<close> uses, 0 where the lookup fails.\<close>

definition resolved_price :: "dataframe \<Rightarrow> date \<Rightarrow> ticker \<Rightarrow> real" where
  "resolved_price data date t = (case ledger_price data t date of Inr p \<Rightarrow> p | Inl e \<Rightarrow> 0)"

definition proceeds :: "dataframe \<Rightarrow> date \<Rightarrow> real \<Rightarrow> dict \<Rightarrow> ticker \<Rightarrow> real" where
  "proceeds data date sc pf t =
     (case map_of pf t of
        Some q \<Rightarrow> if q > 0 then q * resolved_price data date t * (1 - sc) else 0
      | None \<Rightarrow> 0)"

definition example_portfolio0 :: dict where
  "example_portfolio0 =
     [(''SPY'', 0), (''EFA'', 0), (''EEM'', 0), (''AGG'', 0), (''QQQ'', 0), (''LQD'', 0),
      (''IEF'', 0), (''SHY'', 0)]"

definition example_portfolio1 :: dict where
  "example_portfolio1 =
     [(''SPY'', 8), (''EFA'', 0), (''EEM'', 0), (''AGG'', 0), (''QQQ'', 0), (''LQD'', 0),
      (''IEF'', 0), (''SHY'', 0)]"

definition example_portfolio2 :: dict where
  "example_portfolio2 =
     [(''SPY'', 6), (''EFA'', 0), (''EEM'', 0), (''AGG'', 0), (''QQQ'', 0), (''LQD'', 0),
      (''IEF'', 0), (''SHY'', 0)]"

definition example_record1 :: trade_record where
  "example_record1 =
     \<lparr>tr_date = (2023, 3, 1), tr_strategy = AttackInvest, tr_best_asset = ''SPY'',
      tr_cash = 10, tr_total_value = 890, tr_current_return = - 11, tr_portfolio = 1\<rparr>"

definition example_record2 :: trade_record where
  "example_record2 =
     \<lparr>tr_date = (2023, 4, 1), tr_strategy = AttackInvest, tr_best_asset = ''SPY'',
      tr_cash = 75 / 2, tr_total_value = 1395 / 2, tr_current_return = - 121 / 4, tr_portfolio = 2\<rparr>"

definition example_state1 :: sim_state where
  "example_state1 =
     \<lparr>cash = 10, heap = [example_portfolio1, example_portfolio1],
      value_history = [890], trade_history = [example_record1]\<rparr>"

definition example_state2 :: sim_state where
  "example_state2 =
     \<lparr>cash = 75 / 2, heap = [example_portfolio2, example_portfolio1, example_portfolio2],
      value_history = [890, 1395 / 2], trade_history = [example_record1, example_record2]\<rparr>"

definition late_market :: "date list \<times> (ticker \<Rightarrow> date \<Rightarrow> real option)" where
  "late_market =
     ([(2021, 12, 1), (2022, 6, 1), (2023, 3, 1)],
      \<lambda>t d. if t = ''QQQ'' \<and> d = (2021, 12, 1) then None else Some 100)"

definition late_data :: dataframe where
  "late_data = get_stock_data late_market (attack_assets @ safe_assets)"

text \<open>The double that the literal \<^verbatim>\<open>0.1\<close> denotes.\<close>

definition double_tenth :: real where
  "double_tenth = 3602879701896397 / 36028797018963968"

text \<open>A market in which every ticker costs 10 on every day.\<close>

definition flat_market :: "date list \<times> (ticker \<Rightarrow> date \<Rightarrow> real option)" where
  "flat_market = ([(2022, 3, 1), (2023, 3, 1)], \<lambda>t d. Some 10)"

definition flat_data :: dataframe where
  "flat_data = get_stock_data flat_market (attack_assets @ safe_assets)"

definition flat_portfolio :: dict where
  "flat_portfolio =
     [(''SPY'', 0), (''EFA'', 0), (''EEM'', 0), (''AGG'', 0), (''QQQ'', 0), (''LQD'', 88),
      (''IEF'', 0), (''SHY'', 0)]"

definition flat_state :: sim_state where
  "flat_state =
     \<lparr>cash = - (1 / 2 ^ 43), heap = [flat_portfolio, flat_portfolio],
      value_history = [880 - 1 / 2 ^ 43],
      trade_history =
        [\<lparr>tr_date = (2023, 3, 1), tr_strategy = SafeInvest, tr_best_asset = ''LQD'',
          tr_cash = - (1 / 2 ^ 43), tr_total_value = 880 - 1 / 2 ^ 43,
          tr_current_return = ((880 - 1 / 2 ^ 43) / 968 - 1) * 100, tr_portfolio = 1\<rparr>]\<rparr>"

section \<open>Properties\<close>

subsection \<open>The as-of resolver\<close>

lemma bind_err_Inr [simp]: "bind_err (Inr x) f = f x"
  by (simp add: bind_err_def)

lemma bind_err_Inl [simp]: "bind_err (Inl e) f = Inl e"
  by (simp add: bind_err_def)

lemma bind_err_eq_Inr: "bind_err m f = Inr y \<longleftrightarrow> (\<exists>x. m = Inr x \<and> f x = Inr y)"
  by (cases m) simp_all

lemma sorted_last_greatest: "sorted xs \<Longrightarrow> x \<in> set xs \<Longrightarrow> x \<le> last xs"
  by (induction xs) (auto split: if_splits)

lemma asof_None: "asof dates d = None \<longleftrightarrow> (\<forall>x\<in>set dates. \<not> x \<le> d)"
proof (cases "filter (\<lambda>x. x \<le> d) dates")
  case Nil
  then show ?thesis by (simp add: asof_def filter_empty_conv)
next
  case (Cons y ys)
  then have "y \<in> set (filter (\<lambda>x. x \<le> d) dates)" by simp
  then have "y \<in> set dates \<and> y \<le> d" by simp
  with Cons show ?thesis by (auto simp: asof_def)
qed

lemma asof_Some:
  assumes "sorted dates"
  shows "asof dates d = Some x \<longleftrightarrow> x \<in> set dates \<and> x \<le> d \<and> (\<forall>y\<in>set dates. y \<le> d \<longrightarrow> y \<le> x)"
proof -
  let ?f = "filter (\<lambda>x. x \<le> d) dates"
  have s: "sorted ?f" using assms by (rule sorted_wrt_filter)
  show ?thesis
  proof (cases ?f)
    case Nil
    then have "\<forall>x\<in>set dates. \<not> x \<le> d" by (simp add: filter_empty_conv)
    with Nil show ?thesis by (auto simp: asof_def)
  next
    case (Cons y ys)
    then have ne: "?f \<noteq> []" by simp
    have a: "asof dates d = Some (last ?f)" using Cons by (simp add: asof_def)
    have m: "last ?f \<in> set ?f" using ne by (rule last_in_set)
    have g: "\<And>z. z \<in> set dates \<Longrightarrow> z \<le> d \<Longrightarrow> z \<le> last ?f"
      using sorted_last_greatest [OF s] by simp
    show ?thesis
    proof
      assume "asof dates d = Some x"
      with a have "x = last ?f" by simp
      with m g show "x \<in> set dates \<and> x \<le> d \<and> (\<forall>y\<in>set dates. y \<le> d \<longrightarrow> y \<le> x)" by auto
    next
      assume r: "x \<in> set dates \<and> x \<le> d \<and> (\<forall>y\<in>set dates. y \<le> d \<longrightarrow> y \<le> x)"
      then have "x \<le> last ?f" using g by blast
      moreover have "last ?f \<le> x" using m r by auto
      ultimately show "asof dates d = Some x" using a by simp
    qed
  qed
qed

lemma set_dropna_index: "set (dropna_index data t) = observed data t"
  by (auto simp: dropna_index_def observed_def)

text \<open>
  Claim C7, as the code has it. On an ascending row index, the resolver returns the
  target date itself when the ticker has an observation on it; otherwise the latest
  observation date strictly before the target. When the ticker has no observation on or
  before the target the resolver does not fail: it returns the marker NaT (\<open>None\<close>)
  in place of a date. The failure comes from the price lookup \<^verbatim>\<open>data.loc\<close> that a
  caller performs next on that marker, which raises KeyError.
\<close>

theorem get_closest_date_asof:
  assumes "sorted (index data)" and "t \<in> set (columns data)"
  shows "get_closest_date data t d =
           Inr (if d \<in> observed data t then Some d
                else if {x \<in> observed data t. x < d} = {} then None
                else Some (Max {x \<in> observed data t. x < d}))
         \<and> (d \<notin> observed data t \<and> {x \<in> observed data t. x < d} = {}
              \<longrightarrow> loc data None t = Inl KeyError \<and> price_at data t d = Inl KeyError)"
proof -
  let ?O = "observed data t"
  let ?B = "{x \<in> ?O. x < d}"
  have fin: "finite ?B" by (simp add: observed_def)
  have srt: "sorted (dropna_index data t)"
    using assms(1) unfolding dropna_index_def by (rule sorted_wrt_filter)
  have "get_closest_date data t d = Inr (Some d)" if "d \<in> ?O"
    using that assms(2) by (simp add: get_closest_date_def set_dropna_index)
  moreover have "get_closest_date data t d = Inr None" if "d \<notin> ?O" "?B = {}"
  proof -
    have "\<forall>x\<in>?O. \<not> x \<le> d" using that by (auto simp: less_le)
    then have "asof (dropna_index data t) d = None" by (simp add: asof_None set_dropna_index)
    then show ?thesis using that assms(2) by (simp add: get_closest_date_def set_dropna_index)
  qed
  moreover have "get_closest_date data t d = Inr (Some (Max ?B))" if "d \<notin> ?O" "?B \<noteq> {}"
  proof -
    have in_B: "Max ?B \<in> ?B" using fin that(2) by (rule Max_in)
    have "\<forall>y\<in>?O. y \<le> d \<longrightarrow> y \<le> Max ?B"
    proof (intro ballI impI)
      fix y assume "y \<in> ?O" "y \<le> d"
      with that(1) have "y \<in> ?B" by (auto simp: less_le)
      then show "y \<le> Max ?B" using fin by (rule Max_ge [rotated])
    qed
    with in_B have "asof (dropna_index data t) d = Some (Max ?B)"
      by (simp add: asof_Some [OF srt] set_dropna_index less_imp_le)
    then show ?thesis using that assms(2) by (simp add: get_closest_date_def set_dropna_index)
  qed
  moreover have l: "loc data None t = Inl KeyError" by (simp add: loc_def)
  moreover have "price_at data t d = Inl KeyError"
    if "get_closest_date data t d = Inr None"
    using that l by (simp add: price_at_def)
  ultimately show ?thesis by auto
qed

subsection \<open>Momentum scores\<close>

lemma asof_in_set: "asof dates d = Some x \<Longrightarrow> x \<in> set dates"
proof -
  assume a: "asof dates d = Some x"
  then obtain y ys where f: "filter (\<lambda>x. x \<le> d) dates = y # ys"
    by (auto simp: asof_def split: list.splits)
  with a have "x = last (filter (\<lambda>x. x \<le> d) dates)" by (simp add: asof_def)
  moreover have "last (filter (\<lambda>x. x \<le> d) dates) \<in> set (filter (\<lambda>x. x \<le> d) dates)"
    using f by (intro last_in_set) simp
  ultimately show ?thesis by simp
qed

lemma get_closest_date_observed:
  "get_closest_date data t d = Inr (Some x) \<Longrightarrow> x \<in> observed data t \<and> t \<in> set (columns data)"
  by (auto simp: get_closest_date_def Let_def set_dropna_index [symmetric]
           dest: asof_in_set split: if_splits)

lemma loc_closest_not_nan:
  assumes "get_closest_date data t d = Inr c" and "loc data c t = Inr p"
  shows "\<exists>x v. c = Some x \<and> p = Some v \<and> cell data t x = Some v"
proof (cases c)
  case None
  with assms(2) show ?thesis by (simp add: loc_def)
next
  case (Some x)
  with assms(1) have "x \<in> observed data t" by (simp add: get_closest_date_observed)
  then have "cell data t x \<noteq> None" by (simp add: observed_def)
  moreover from assms(2) Some have "p = cell data t x" by (simp add: loc_def split: if_splits)
  ultimately show ?thesis using Some by auto
qed

lemma price_at_eq:
  "price_at data t d = Inr p \<longleftrightarrow> (\<exists>c. get_closest_date data t d = Inr c \<and> loc data c t = Inr p)"
  by (simp add: price_at_def bind_err_eq_Inr)

lemma price_at_not_nan: "price_at data t d \<noteq> Inr None"
  using loc_closest_not_nan by (fastforce simp: price_at_eq)

lemma ledger_price_never_nan: "ledger_price data t d \<noteq> Inl NaNPrice"
proof
  assume a: "ledger_price data t d = Inl NaNPrice"
  show False
  proof (cases "price_at data t d")
    case (Inl e)
    have "e \<noteq> NaNPrice" using Inl
      by (auto simp: price_at_def bind_err_def get_closest_date_def loc_def Let_def
               split: sum.splits option.splits if_splits)
    with a Inl show False by (simp add: ledger_price_def)
  next
    case (Inr p)
    with price_at_not_nan [of data t d] obtain v where "p = Some v" by (cases p) auto
    with a Inr show False by (simp add: ledger_price_def)
  qed
qed

lemma get_closest_date_error: "get_closest_date data t d = Inl e \<Longrightarrow> e = KeyError"
  by (simp add: get_closest_date_def Let_def split: if_splits)

lemma loc_error: "loc data c t = Inl e \<Longrightarrow> e = KeyError"
  by (simp add: loc_def split: option.splits if_splits)

lemma price_at_error: "price_at data t d = Inl e \<Longrightarrow> e = KeyError"
  by (auto simp: price_at_def bind_err_def split: sum.splits dest: get_closest_date_error loc_error)

lemma ticker_score_Inr:
  "ticker_score data date t = Inr s \<longleftrightarrow>
     (\<exists>a0 a1 a3 a6 a12.
        price_at data t date = Inr a0 \<and> price_at data t (sub_months date 1) = Inr a1 \<and>
        price_at data t (sub_months date 3) = Inr a3 \<and> price_at data t (sub_months date 6) = Inr a6 \<and>
        price_at data t (sub_months date 12) = Inr a12 \<and>
        s = (case (a0, a1, a3, a6, a12) of
              (Some p0, Some p1, Some p3, Some p6, Some p12) \<Rightarrow>
                Score ((p0 / p1 - 1) * 12 + (p0 / p3 - 1) * 4 + (p0 / p6 - 1) * 2 + (p0 / p12 - 1) * 1)
            | _ \<Rightarrow> NegInf))"
  unfolding ticker_score_def price_at_eq bind_err_eq_Inr by (simp only: sum.inject) blast

lemma ticker_score_never_neg_inf: "ticker_score data date t \<noteq> Inr NegInf"
proof
  assume a: "ticker_score data date t = Inr NegInf"
  then obtain a0 a1 a3 a6 a12 where
    p: "price_at data t date = Inr a0" "price_at data t (sub_months date 1) = Inr a1"
       "price_at data t (sub_months date 3) = Inr a3" "price_at data t (sub_months date 6) = Inr a6"
       "price_at data t (sub_months date 12) = Inr a12"
       and s: "NegInf = (case (a0, a1, a3, a6, a12) of
              (Some p0, Some p1, Some p3, Some p6, Some p12) \<Rightarrow>
                Score ((p0 / p1 - 1) * 12 + (p0 / p3 - 1) * 4 + (p0 / p6 - 1) * 2 + (p0 / p12 - 1) * 1)
            | _ \<Rightarrow> NegInf)"
    unfolding ticker_score_Inr by blast
  from p obtain p0 p1 p3 p6 p12 where
    "a0 = Some p0" "a1 = Some p1" "a3 = Some p3" "a6 = Some p6" "a12 = Some p12"
    using price_at_not_nan by (metis not_Some_eq)
  with s show False by simp
qed

lemma scores_loop_lookup:
  "scores_loop data date ts acc = Inr ms \<Longrightarrow>
     (\<forall>t\<in>set ts. ticker_score data date t = Inr (dict_get_default ms t NegInf) \<and> map_of ms t \<noteq> None)
     \<and> (\<forall>t. t \<notin> set ts \<longrightarrow> map_of ms t = map_of acc t)"
proof (induction ts arbitrary: acc)
  case Nil
  then show ?case by simp
next
  case (Cons x xs)
  from Cons.prems obtain s where
    s: "ticker_score data date x = Inr s" and
    r: "scores_loop data date xs (AList.update x s acc) = Inr ms"
    by (auto simp: bind_err_eq_Inr)
  note ih = Cons.IH [OF r]
  have x: "ticker_score data date x = Inr (dict_get_default ms x NegInf) \<and> map_of ms x \<noteq> None"
  proof (cases "x \<in> set xs")
    case True
    with ih show ?thesis by blast
  next
    case False
    with ih have "map_of ms x = Some s" by (simp add: update_conv')
    with s show ?thesis by (simp add: dict_get_default_def)
  qed
  have "map_of ms t = map_of acc t" if "t \<notin> set (x # xs)" for t
    using that ih by (simp add: update_conv')
  with x ih show ?case by auto
qed

lemma scores_cover_columns:
  assumes "calculate_momentum_scores data date = Inr ms"
  shows "set (columns data) \<subseteq> fst ` set ms"
proof
  fix t assume "t \<in> set (columns data)"
  moreover from assms have "scores_loop data date (columns data) [] = Inr ms"
    by (simp add: calculate_momentum_scores_def)
  ultimately have "map_of ms t \<noteq> None" using scores_loop_lookup by blast
  then show "t \<in> fst ` set ms" by (metis domIff dom_map_of_conv_image_fst)
qed


subsection \<open>The regime decision\<close>

lemma max_loop_ge: "\<forall>y\<in>set (b # xs). key y \<le> key (max_loop key b xs)"
proof (induction xs arbitrary: b)
  case Nil
  show ?case by simp
next
  case (Cons x xs)
  let ?b = "if key b < key x then x else b"
  from Cons [of ?b] have ih: "\<forall>y\<in>set (?b # xs). key y \<le> key (max_loop key ?b xs)" .
  then have "key ?b \<le> key (max_loop key ?b xs)" by simp
  moreover have "key b \<le> key ?b" "key x \<le> key ?b" by auto
  ultimately have "key b \<le> key (max_loop key ?b xs)" "key x \<le> key (max_loop key ?b xs)"
    by (blast intro: order_trans)+
  with ih show ?case by simp
qed

lemma max_loop_in: "max_loop key b xs \<in> set (b # xs)"
  by (induction xs arbitrary: b) auto

lemma max_loop_find:
  "find (\<lambda>z. key (max_loop key b xs) \<le> key z) (b # xs) = Some (max_loop key b xs)"
proof (induction xs arbitrary: b)
  case Nil
  show ?case by simp
next
  case (Cons x xs)
  let ?b = "if key b < key x then x else b"
  let ?r = "max_loop key ?b xs"
  have r: "max_loop key b (x # xs) = ?r" by simp
  have ih: "find (\<lambda>z. key ?r \<le> key z) (?b # xs) = Some ?r" by (rule Cons)
  have ge: "key ?b \<le> key ?r" using max_loop_ge [of ?b xs key] by simp
  show ?case
  proof (cases "key b < key x")
    case True
    then have "\<not> key ?r \<le> key b" using ge by auto
    with True ih show ?thesis unfolding r by simp
  next
    case False
    show ?thesis
    proof (cases "key ?r \<le> key b")
      case True
      with False ih show ?thesis unfolding r by simp
    next
      case nb: False
      with False have "\<not> key ?r \<le> key x" by auto
      with False nb ih show ?thesis unfolding r by simp
    qed
  qed
qed

lemma py_max_first_max: "xs \<noteq> [] \<Longrightarrow> py_max key xs = Inr r \<longleftrightarrow> first_max key xs = Some r"
proof -
  assume "xs \<noteq> []"
  then obtain b ys where xs: "xs = b # ys" by (cases xs) auto
  let ?r = "max_loop key b ys"
  have "(\<forall>y\<in>set xs. key y \<le> key z) \<longleftrightarrow> key ?r \<le> key z" for z
    using max_loop_ge [of b ys key] max_loop_in [of key b ys] unfolding xs
    by (meson order_trans)
  then have "first_max key xs = find (\<lambda>z. key ?r \<le> key z) xs"
    by (simp add: first_max_def)
  then have "first_max key xs = Some ?r" using max_loop_find [of key b ys] by (simp add: xs)
  moreover have "py_max key xs = Inr ?r" by (simp add: py_max_def xs)
  ultimately show ?thesis by auto
qed

lemma py_max_total: "xs \<noteq> [] \<Longrightarrow> \<exists>r. py_max key xs = Inr r"
  by (cases xs) (simp_all add: py_max_def)

lemma all_nonpositive_eq:
  "set as \<subseteq> fst ` set ms \<Longrightarrow>
     all_nonpositive ms as = Inr (\<forall>a\<in>set as. dict_get_default ms a NegInf \<le> Score 0)"
proof (induction as)
  case Nil
  show ?case by simp
next
  case (Cons a as)
  then have "a \<in> fst ` set ms" by simp
  then obtain v where v: "map_of ms a = Some v"
    by (metis domD dom_map_of_conv_image_fst)
  with Cons show ?case by (simp add: dict_get_def dict_get_default_def)
qed

text \<open>
  Claim C1. When every attack (risk) asset has a score, the strategy chosen is the safe
  one exactly when every attack asset's score is at most 0 (a score of exactly 0 counts
  as non-positive), and the attack one otherwise; the target is the asset of maximum
  score in the chosen set, the first in the declared order on ties. In a step the
  scores are those of a table whose columns are the whole universe, so every attack
  asset has one (lemma \<open>scores_cover_columns\<close>).
\<close>

theorem regime_decision:
  assumes "set attack_assets \<subseteq> fst ` set momentum_scores"
  shows "\<exists>best_asset.
           select_asset momentum_scores =
             Inr (best_asset,
                  if (\<forall>a\<in>set attack_assets. dict_get_default momentum_scores a NegInf \<le> Score 0)
                  then SafeInvest else AttackInvest)
           \<and> first_max (\<lambda>x. dict_get_default momentum_scores x NegInf)
                (if (\<forall>a\<in>set attack_assets. dict_get_default momentum_scores a NegInf \<le> Score 0)
                 then safe_assets else attack_assets) = Some best_asset"
proof -
  let ?key = "\<lambda>x. dict_get_default momentum_scores x NegInf"
  have a: "attack_assets \<noteq> []" and s: "safe_assets \<noteq> []"
    by (simp_all add: attack_assets_def safe_assets_def)
  obtain ba where ba: "py_max ?key attack_assets = Inr ba"
    using py_max_total [OF a] by blast
  obtain bs where bs: "py_max ?key safe_assets = Inr bs"
    using py_max_total [OF s] by blast
  from ba have fa: "first_max ?key attack_assets = Some ba" by (simp add: py_max_first_max [OF a])
  from bs have fs: "first_max ?key safe_assets = Some bs" by (simp add: py_max_first_max [OF s])
  show ?thesis
    using ba bs fa fs by (simp add: select_asset_def all_nonpositive_eq [OF assms])
qed

subsection \<open>The resolver, the scorer and the decision on example inputs\<close>

lemmas resolver_eval =
  get_closest_date_def dropna_index_def asof_def loc_def price_at_def ledger_price_def Let_def

theorem get_closest_date_asof_witness:
  "sorted (index example_gap) \<and> ''LQD'' \<in> set (columns example_gap)
   \<and> get_closest_date example_gap ''LQD'' (2023, 1, 5) = Inr (Some (2023, 1, 5))
   \<and> get_closest_date example_gap ''LQD'' (2023, 1, 4) = Inr (Some (2023, 1, 2))
   \<and> get_closest_date example_gap ''LQD'' (2023, 1, 1) = Inr None"
proof -
  have h1: "sorted (index example_gap)" by (simp add: example_gap_def)
  have h2: "''LQD'' \<in> set (columns example_gap)" by (simp add: example_gap_def)
  show ?thesis
    using h1 h2 get_closest_date_asof [OF h1 h2, of "(2023, 1, 4)"]
    by (simp add: example_gap_def resolver_eval)
qed

lemma example_data_simps:
  "index example_data = [(2022, 3, 1), (2022, 9, 1), (2022, 12, 1), (2023, 2, 1), (2023, 3, 1)]"
  "columns example_data = [''SPY'', ''EFA'', ''EEM'', ''AGG'', ''QQQ'', ''LQD'', ''IEF'', ''SHY'']"
  "cell example_data t d = (if t = ''SPY'' \<and> d = (2023, 3, 1) then Some 110 else Some 100)"
  by (simp_all add: example_data_def example_market_def get_stock_data_def attack_assets_def safe_assets_def)

lemma sub_months_eval:
  "sub_months (2023, 3, 1) 1 = (2023, 2, 1)"
  "sub_months (2023, 3, 1) 3 = (2022, 12, 1)"
  "sub_months (2023, 3, 1) 6 = (2022, 9, 1)"
  "sub_months (2023, 3, 1) 12 = (2022, 3, 1)"
  by code_simp+



theorem regime_decision_witness:
  "set attack_assets \<subseteq> fst ` set example_scores
   \<and> select_asset example_scores = Inr (''LQD'', SafeInvest)"
proof -
  have h: "set attack_assets \<subseteq> fst ` set example_scores"
    by (simp add: attack_assets_def example_scores_def)
  have all: "\<forall>a\<in>set attack_assets. dict_get_default example_scores a NegInf \<le> Score 0"
    by (simp add: attack_assets_def example_scores_def dict_get_default_def)
  have fm: "first_max (\<lambda>x. dict_get_default example_scores x NegInf) safe_assets = Some ''LQD''"
    by (simp add: first_max_def safe_assets_def example_scores_def dict_get_default_def)
  from regime_decision [OF h] all fm h show ?thesis by auto
qed

subsection \<open>The sale\<close>

lemma dict_get_Inr: "dict_get m k = Inr v \<longleftrightarrow> map_of m k = Some v"
  by (simp add: dict_get_def split: option.splits)

lemma map_fst_update: "k \<in> fst ` set m \<Longrightarrow> map fst (AList.update k v m) = map fst m"
  by (induction m) auto

lemma sell_keys:
  "sell data date sc ts (c, pf) = Inr (c', pf') \<Longrightarrow> map fst pf' = map fst pf"
proof (induction ts arbitrary: c pf)
  case Nil
  then show ?case by simp
next
  case (Cons t ts)
  from Cons.prems obtain q where q: "map_of pf t = Some q"
    by (auto simp: bind_err_eq_Inr dict_get_Inr)
  then have k: "t \<in> fst ` set pf" by (metis domI dom_map_of_conv_image_fst)
  show ?case
  proof (cases "q > 0")
    case True
    with Cons.prems q obtain p where
      "sell data date sc ts (c + q * p * (1 - sc), AList.update t 0 pf) = Inr (c', pf')"
      by (auto simp: bind_err_eq_Inr dict_get_Inr)
    from Cons.IH [OF this] show ?thesis by (simp add: map_fst_update [OF k])
  next
    case False
    with Cons.prems q have "sell data date sc ts (c, pf) = Inr (c', pf')"
      by (auto simp: bind_err_eq_Inr dict_get_Inr)
    from Cons.IH [OF this] show ?thesis .
  qed
qed

lemma sell_holdings:
  "sell data date sc ts (c, pf) = Inr (c', pf') \<Longrightarrow>
     map_of pf' k = (if k \<in> set ts \<and> (\<exists>q. map_of pf k = Some q \<and> q > 0) then Some 0 else map_of pf k)"
proof (induction ts arbitrary: c pf)
  case Nil
  then show ?case by simp
next
  case (Cons t ts)
  from Cons.prems obtain q where q: "map_of pf t = Some q"
    by (auto simp: bind_err_eq_Inr dict_get_Inr)
  show ?case
  proof (cases "q > 0")
    case True
    with Cons.prems q obtain p where
      "sell data date sc ts (c + q * p * (1 - sc), AList.update t 0 pf) = Inr (c', pf')"
      by (auto simp: bind_err_eq_Inr dict_get_Inr)
    from Cons.IH [OF this] True q show ?thesis by (auto simp: update_conv')
  next
    case False
    with Cons.prems q have "sell data date sc ts (c, pf) = Inr (c', pf')"
      by (auto simp: bind_err_eq_Inr dict_get_Inr)
    from Cons.IH [OF this] False q show ?thesis by auto
  qed
qed

lemma sell_cash:
  "distinct ts \<Longrightarrow> sell data date sc ts (c, pf) = Inr (c', pf') \<Longrightarrow>
     c' = c + (\<Sum>t\<leftarrow>ts. proceeds data date sc pf t)
     \<and> (\<forall>t\<in>set ts. \<forall>q. map_of pf t = Some q \<and> q > 0 \<longrightarrow>
           ledger_price data t date = Inr (resolved_price data date t))"
proof (induction ts arbitrary: c pf)
  case Nil
  then show ?case by simp
next
  case (Cons t ts)
  from Cons.prems obtain q where q: "map_of pf t = Some q"
    by (auto simp: bind_err_eq_Inr dict_get_Inr)
  from Cons.prems have d: "distinct ts" and nt: "t \<notin> set ts" by simp_all
  show ?case
  proof (cases "q > 0")
    case True
    with Cons.prems q obtain p where
      p: "ledger_price data t date = Inr p" and
      r: "sell data date sc ts (c + q * p * (1 - sc), AList.update t 0 pf) = Inr (c', pf')"
      by (auto simp: bind_err_eq_Inr dict_get_Inr)
    have rp: "resolved_price data date t = p" using p by (simp add: resolved_price_def)
    have same: "proceeds data date sc (AList.update t 0 pf) u = proceeds data date sc pf u"
      if "u \<in> set ts" for u using that nt by (auto simp: proceeds_def update_conv')
    have same2: "map_of (AList.update t 0 pf) u = map_of pf u" if "u \<in> set ts" for u
      using that nt by (auto simp: update_conv')
    from Cons.IH [OF d r]
    have 1: "c' = c + q * p * (1 - sc) + (\<Sum>u\<leftarrow>ts. proceeds data date sc (AList.update t 0 pf) u)"
      and 2: "\<forall>u\<in>set ts. \<forall>q. map_of (AList.update t 0 pf) u = Some q \<and> q > 0 \<longrightarrow>
           ledger_price data u date = Inr (resolved_price data date u)"
      by blast+
    have "(\<Sum>u\<leftarrow>ts. proceeds data date sc (AList.update t 0 pf) u) = (\<Sum>u\<leftarrow>ts. proceeds data date sc pf u)"
      using same by (intro arg_cong [where f = sum_list] map_cong) auto
    with 1 have "c' = c + (\<Sum>u\<leftarrow>t # ts. proceeds data date sc pf u)"
      using True q rp by (simp add: proceeds_def)
    moreover have "\<forall>u\<in>set (t # ts). \<forall>q. map_of pf u = Some q \<and> q > 0 \<longrightarrow>
           ledger_price data u date = Inr (resolved_price data date u)"
      using 2 same2 p rp by auto
    ultimately show ?thesis by blast
  next
    case False
    with Cons.prems q have r: "sell data date sc ts (c, pf) = Inr (c', pf')"
      by (auto simp: bind_err_eq_Inr dict_get_Inr)
    from Cons.IH [OF d r] False q show ?thesis by (auto simp: proceeds_def)
  qed
qed

lemma sell_nonpositive:
  assumes "sell data date sc (map fst pf) (c, pf) = Inr (c', pf')" and "map_of pf' k = Some v"
  shows "v \<le> 0"
proof -
  from sell_holdings [OF assms(1), of k] assms(2)
  have e: "Some v = (if k \<in> set (map fst pf) \<and> (\<exists>q. map_of pf k = Some q \<and> q > 0) then Some 0 else map_of pf k)"
    by simp
  show ?thesis
  proof (cases "\<exists>q. map_of pf k = Some q \<and> q > 0")
    case True
    then have "k \<in> set (map fst pf)" by (auto dest: map_of_SomeD intro: rev_image_eqI)
    with True e show ?thesis by simp
  next
    case False
    with e have "map_of pf k = Some v" by (simp split: if_splits)
    with False show ?thesis by (auto simp: not_less)
  qed
qed

subsection \<open>The purchase and the decomposition of a step\<close>

lemma buy_eq:
  assumes "ledger_price data best date = Inr p" and "best \<noteq> []" and "map_of pf best = Some h"
  shows "buy data date bc best (c, pf) =
           Inr (round_double (c - round_double (round_double
                   (floor_divide c (round_double (p * round_double (1 + bc))) * p)
                   * round_double (1 + bc))),
                AList.update best
                  (round_double (h + floor_divide c (round_double (p * round_double (1 + bc))))) pf)"
  using assms by (simp add: buy_def dict_get_def Let_def)

lemma buy_Inr:
  assumes "buy data date bc best (c, pf) = Inr (c', pf')" and "best \<noteq> []"
  shows "\<exists>p h. ledger_price data best date = Inr p \<and> map_of pf best = Some h"
  using assms by (auto simp: buy_def Let_def bind_err_eq_Inr dict_get_Inr)

lemma buy_changes_target:
  assumes "buy data date bc best (c, pf) = Inr (c', pf')" and "best \<noteq> []"
  shows "\<exists>v. pf' = AList.update best v pf"
proof -
  from buy_Inr [OF assms] obtain p h where
    "ledger_price data best date = Inr p" "map_of pf best = Some h" by blast
  from buy_eq [OF this(1) assms(2) this(2), of bc c] assms(1) show ?thesis by auto
qed

lemma step_Inr:
  "step data ic bc sc s date = Inr s' \<longleftrightarrow>
     (\<exists>ms best strat c1 pf1 c2 pf2 hv.
        calculate_momentum_scores data date = Inr ms \<and>
        select_asset ms = Inr (best, strat) \<and>
        sell data date sc (map fst (heap s ! portfolio_addr)) (cash s, heap s ! portfolio_addr) = Inr (c1, pf1) \<and>
        buy data date bc best (c1, pf1) = Inr (c2, pf2) \<and>
        holdings_sum data date pf2 (map fst pf2) 0 = Inr hv \<and>
        s' = \<lparr>cash = c2,
              heap = (heap s)[portfolio_addr := pf2] @ [pf2],
              value_history = value_history s @ [c2 + hv],
              trade_history = trade_history s @
                [\<lparr>tr_date = date, tr_strategy = strat, tr_best_asset = best,
                  tr_cash = c2, tr_total_value = c2 + hv,
                  tr_current_return = (((c2 + hv) / ic) - 1) * 100,
                  tr_portfolio = length (heap s)\<rparr>]\<rparr>)"
  by (auto simp: step_def bind_err_eq_Inr Let_def)

lemma py_max_in: "py_max key xs = Inr r \<Longrightarrow> r \<in> set xs"
proof (cases xs)
  case Nil
  assume "py_max key xs = Inr r"
  with Nil show ?thesis by (simp add: py_max_def)
next
  case (Cons b ys)
  assume "py_max key xs = Inr r"
  with Cons have "r = max_loop key b ys" by (simp add: py_max_def)
  with max_loop_in [of key b ys] Cons show ?thesis by simp
qed

lemma select_asset_in_universe:
  "select_asset ms = Inr (best, strat) \<Longrightarrow> best \<in> set (attack_assets @ safe_assets)"
proof -
  assume a: "select_asset ms = Inr (best, strat)"
  let ?key = "\<lambda>x. dict_get_default ms x NegInf"
  from a obtain ba bs where
    ba: "py_max ?key attack_assets = Inr ba" and bs: "py_max ?key safe_assets = Inr bs"
    and b: "best = ba \<or> best = bs"
    by (auto simp: select_asset_def bind_err_eq_Inr split: if_splits)
  have "ba \<in> set attack_assets" using ba by (rule py_max_in)
  moreover have "bs \<in> set safe_assets" using bs by (rule py_max_in)
  ultimately show ?thesis using b by auto
qed

lemma select_asset_nonempty: "select_asset ms = Inr (best, strat) \<Longrightarrow> best \<noteq> []"
  by (drule select_asset_in_universe) (auto simp: attack_assets_def safe_assets_def)

subsection \<open>Properties of one step\<close>

lemma heap_after_write:
  "h \<noteq> [] \<Longrightarrow> (h[portfolio_addr := pf] @ [pf]) ! portfolio_addr = pf"
  by (cases h) (simp_all add: portfolio_addr_def)

text \<open>
  Claim C4. After a step, a ticker with a positive holding is the target of that step,
  so at most one ticker of the whole portfolio (attack and safe assets together) has a
  positive holding; the same is true of the snapshot the step recorded.
\<close>

theorem single_position:
  assumes "step data ic bc sc s date = Inr s'" and "heap s \<noteq> []"
  shows "(\<forall>t q. map_of (heap s' ! portfolio_addr) t = Some q \<and> 0 < q \<longrightarrow>
            t = tr_best_asset (last (trade_history s')))
         \<and> (\<forall>t q. map_of (heap s' ! tr_portfolio (last (trade_history s'))) t = Some q \<and> 0 < q \<longrightarrow>
            t = tr_best_asset (last (trade_history s')))"
proof -
  from assms(1) obtain ms best strat c1 pf1 c2 pf2 hv where
    sel: "select_asset ms = Inr (best, strat)" and
    sl: "sell data date sc (map fst (heap s ! portfolio_addr)) (cash s, heap s ! portfolio_addr) = Inr (c1, pf1)" and
    bu: "buy data date bc best (c1, pf1) = Inr (c2, pf2)" and
    hp: "heap s' = (heap s)[portfolio_addr := pf2] @ [pf2]" and
    tr: "tr_best_asset (last (trade_history s')) = best" and
    ad: "tr_portfolio (last (trade_history s')) = length (heap s)"
    unfolding step_Inr by auto
  have ne: "best \<noteq> []" using sel by (rule select_asset_nonempty)
  from buy_changes_target [OF bu ne] obtain v where pf2: "pf2 = AList.update best v pf1" by blast
  have one: "t = best" if "map_of pf2 t = Some q" "0 < q" for t q
  proof (rule ccontr)
    assume "t \<noteq> best"
    with that(1) pf2 have "map_of pf1 t = Some q" by (simp add: update_conv')
    from sell_nonpositive [OF sl this] that(2) show False by simp
  qed
  have live: "heap s' ! portfolio_addr = pf2" using hp assms(2) by (simp add: heap_after_write)
  have snap: "heap s' ! tr_portfolio (last (trade_history s')) = pf2"
    using hp ad by (simp add: nth_append)
  show ?thesis using one live snap tr by auto
qed

text \<open>
  Claim C8. A step that completes has sold before it bought: the sale is run on the
  ledger as the step found it, whatever the target is, and the purchase starts from the
  cash and the holdings the sale returned. The sale credits cash with
  \<open>quantity * price * (1 - sell_commission)\<close> for every ticker held with a positive
  quantity, at its as-of price, and sets that holding to 0; other holdings are unchanged.
  So a step whose target is the asset already held still pays for a sale and a purchase.
\<close>

theorem liquidation_unconditional:
  assumes "step data ic bc sc s date = Inr s'" and "heap s \<noteq> []"
    and "distinct (map fst (heap s ! portfolio_addr))"
  shows "\<exists>c1 pf1.
           sell data date sc (map fst (heap s ! portfolio_addr)) (cash s, heap s ! portfolio_addr)
             = Inr (c1, pf1)
           \<and> c1 = cash s + (\<Sum>(t, q)\<leftarrow>heap s ! portfolio_addr.
                              if q > 0 then q * resolved_price data date t * (1 - sc) else 0)
           \<and> (\<forall>(t, q)\<in>set (heap s ! portfolio_addr).
                 if q > 0
                 then ledger_price data t date = Inr (resolved_price data date t) \<and> map_of pf1 t = Some 0
                 else map_of pf1 t = Some q)
           \<and> buy data date bc (tr_best_asset (last (trade_history s'))) (c1, pf1)
               = Inr (cash s', heap s' ! portfolio_addr)"
proof -
  let ?pf = "heap s ! portfolio_addr"
  from assms(1) obtain best c1 pf1 c2 pf2 where
    sl: "sell data date sc (map fst ?pf) (cash s, ?pf) = Inr (c1, pf1)" and
    bu: "buy data date bc best (c1, pf1) = Inr (c2, pf2)" and
    hp: "heap s' = (heap s)[portfolio_addr := pf2] @ [pf2]" and
    tr: "tr_best_asset (last (trade_history s')) = best" and
    cs: "cash s' = c2"
    unfolding step_Inr by auto
  have live: "heap s' ! portfolio_addr = pf2" using hp assms(2) by (simp add: heap_after_write)
  have lk: "map_of ?pf t = Some q" if "(t, q) \<in> set ?pf" for t q
    using that assms(3) by simp
  from sell_cash [OF assms(3) sl]
  have c1: "c1 = cash s + (\<Sum>t\<leftarrow>map fst ?pf. proceeds data date sc ?pf t)"
    and pr: "\<forall>t\<in>set (map fst ?pf). \<forall>q. map_of ?pf t = Some q \<and> q > 0 \<longrightarrow>
           ledger_price data t date = Inr (resolved_price data date t)"
    by blast+
  have "(\<Sum>t\<leftarrow>map fst ?pf. proceeds data date sc ?pf t)
          = (\<Sum>(t, q)\<leftarrow>?pf. if q > 0 then q * resolved_price data date t * (1 - sc) else 0)"
    unfolding map_map
    by (intro arg_cong [where f = sum_list] map_cong) (auto simp: proceeds_def lk)
  with c1 have cash: "c1 = cash s + (\<Sum>(t, q)\<leftarrow>?pf.
                              if q > 0 then q * resolved_price data date t * (1 - sc) else 0)"
    by simp
  have each: "if q > 0
              then ledger_price data t date = Inr (resolved_price data date t) \<and> map_of pf1 t = Some 0
              else map_of pf1 t = Some q" if "(t, q) \<in> set ?pf" for t q
  proof -
    have m: "map_of ?pf t = Some q" using that by (rule lk)
    have k: "t \<in> set (map fst ?pf)" using that by (auto intro: rev_image_eqI)
    from sell_holdings [OF sl, of t] m k pr show ?thesis by auto
  qed
  show ?thesis
    apply (rule exI [of _ c1], rule exI [of _ pf1])
    using sl cash each bu tr live cs by auto
qed

subsection \<open>Runs\<close>

lemma run_steps_append:
  "run_steps data ic bc sc (ds @ es) s = bind_err (run_steps data ic bc sc ds s) (run_steps data ic bc sc es)"
proof (induction ds arbitrary: s)
  case Nil
  show ?case by simp
next
  case (Cons d ds)
  show ?case by (cases "step data ic bc sc s d") (simp_all add: Cons)
qed

subsection \<open>The rounding to doubles\<close>

lemma binary_exponent_bounds:
  assumes "x \<noteq> 0"
  shows "2 powi binary_exponent x \<le> \<bar>x\<bar> \<and> \<bar>x\<bar> < 2 powi (binary_exponent x + 1)"
proof (cases "1 \<le> \<bar>x\<bar>")
  case True
  let ?m = "\<lfloor>\<bar>x\<bar>\<rfloor>"
  have m: "0 < ?m" using True by simp
  from bitlen_bounds [OF m] have lo: "2 ^ nat (bitlen ?m - 1) \<le> ?m" and hi: "?m < 2 ^ nat (bitlen ?m)"
    by blast+
  have b1: "1 \<le> bitlen ?m" using m by (simp add: bitlen_alt_def)
  have e: "binary_exponent x = bitlen ?m - 1" using True by (simp add: binary_exponent_def)
  have "(2::real) powi (bitlen ?m - 1) = 2 ^ nat (bitlen ?m - 1)"
    using b1 by (simp add: power_int_def)
  also have "\<dots> = of_int (2 ^ nat (bitlen ?m - 1))" by simp
  also have "\<dots> \<le> of_int ?m" using lo by (simp only: of_int_le_iff)
  also have "\<dots> \<le> \<bar>x\<bar>" by simp
  finally have 1: "2 powi binary_exponent x \<le> \<bar>x\<bar>" using e by simp
  have "?m + 1 \<le> 2 ^ nat (bitlen ?m)" using hi by simp
  then have "of_int (?m + 1) \<le> (of_int (2 ^ nat (bitlen ?m)) :: real)" by (simp only: of_int_le_iff)
  then have up: "of_int ?m + 1 \<le> (2 ^ nat (bitlen ?m) :: real)" by simp
  have "\<bar>x\<bar> < of_int ?m + 1" by linarith
  from this up have "\<bar>x\<bar> < 2 ^ nat (bitlen ?m)" by (rule less_le_trans)
  also have "(2::real) ^ nat (bitlen ?m) = 2 powi (bitlen ?m)"
    using b1 by (simp add: power_int_def)
  finally have 2: "\<bar>x\<bar> < 2 powi (binary_exponent x + 1)" using e by simp
  from 1 2 show ?thesis ..
next
  case False
  let ?y = "1 / \<bar>x\<bar>"
  let ?n = "\<lceil>?y\<rceil> - 1"
  have xp: "0 < \<bar>x\<bar>" using assms by simp
  have y1: "1 < ?y" using False xp by simp
  then have "1 < \<lceil>?y\<rceil>" by (simp add: less_ceiling_iff)
  then have n: "0 < ?n" by simp
  from bitlen_bounds [OF n] have lo: "2 ^ nat (bitlen ?n - 1) \<le> ?n" and hi: "?n < 2 ^ nat (bitlen ?n)"
    by blast+
  have b1: "1 \<le> bitlen ?n" using n by (simp add: bitlen_alt_def)
  have e: "binary_exponent x = - bitlen ?n" using False by (simp add: binary_exponent_def)
  have ny: "of_int ?n < ?y" by linarith
  have yn: "?y \<le> of_int (?n + 1)" by simp
  have "?n + 1 \<le> 2 ^ nat (bitlen ?n)" using hi by simp
  then have "of_int (?n + 1) \<le> (of_int (2 ^ nat (bitlen ?n)) :: real)" by (simp only: of_int_le_iff)
  then have "of_int (?n + 1) \<le> (2 ^ nat (bitlen ?n) :: real)" by simp
  with yn have "?y \<le> 2 ^ nat (bitlen ?n)" by (rule order_trans)
  then have "1 \<le> 2 ^ nat (bitlen ?n) * \<bar>x\<bar>" using xp by (simp add: field_simps)
  then have "1 / 2 ^ nat (bitlen ?n) \<le> \<bar>x\<bar>" by (simp add: field_simps)
  moreover have "(2::real) powi (- bitlen ?n) = 1 / 2 ^ nat (bitlen ?n)"
    using b1 by (simp add: power_int_def field_simps)
  ultimately have 1: "2 powi binary_exponent x \<le> \<bar>x\<bar>" using e by simp
  have "(of_int (2 ^ nat (bitlen ?n - 1)) :: real) \<le> of_int ?n" using lo by (simp only: of_int_le_iff)
  then have "(2 ^ nat (bitlen ?n - 1) :: real) \<le> of_int ?n" by simp
  from this ny have "2 ^ nat (bitlen ?n - 1) < ?y" by (rule le_less_trans)
  then have "2 ^ nat (bitlen ?n - 1) * \<bar>x\<bar> < 1" using xp by (simp add: field_simps)
  then have "\<bar>x\<bar> < 1 / 2 ^ nat (bitlen ?n - 1)" by (simp add: field_simps)
  moreover have "(2::real) powi (- bitlen ?n + 1) = 1 / 2 ^ nat (bitlen ?n - 1)"
  proof -
    have "- bitlen ?n + 1 = - (bitlen ?n - 1)" by simp
    moreover have "(2::real) powi (- (bitlen ?n - 1)) = 1 / 2 ^ nat (bitlen ?n - 1)"
      using b1 by (simp add: power_int_def field_simps)
    ultimately show ?thesis by simp
  qed
  ultimately have 2: "\<bar>x\<bar> < 2 powi (binary_exponent x + 1)" using e by simp
  from 1 2 show ?thesis ..
qed

lemma bitlen_numeral: "bitlen (numeral n) = bitlen (numeral n div 2) + 1"
  by (subst compute_bitlen) simp

lemma bitlen_one: "bitlen 1 = 1"
  by (subst compute_bitlen) simp

lemmas round_eval = round_double_def binary_exponent_def round_even_def floor_divide_def Let_def
  bitlen_numeral bitlen_one power_int_minus

subsection \<open>Histories and snapshots\<close>

lemma step_effect:
  assumes "step data ic bc sc s date = Inr s'" and "heap s \<noteq> []"
  shows "\<exists>r. trade_history s' = trade_history s @ [r]
             \<and> value_history s' = value_history s @ [tr_total_value r]
             \<and> tr_portfolio r = length (heap s)
             \<and> length (heap s') = Suc (length (heap s))
             \<and> heap s' ! length (heap s) = heap s' ! portfolio_addr
             \<and> (\<forall>a. a < length (heap s) \<and> a \<noteq> portfolio_addr \<longrightarrow> heap s' ! a = heap s ! a)"
proof -
  from assms(1) obtain best strat c2 pf2 hv where
    th: "trade_history s' = trade_history s @
           [\<lparr>tr_date = date, tr_strategy = strat, tr_best_asset = best,
             tr_cash = c2, tr_total_value = c2 + hv,
             tr_current_return = (((c2 + hv) / ic) - 1) * 100,
             tr_portfolio = length (heap s)\<rparr>]"
    and vh: "value_history s' = value_history s @ [c2 + hv]"
    and hp: "heap s' = (heap s)[portfolio_addr := pf2] @ [pf2]"
    unfolding step_Inr by auto
  let ?r = "\<lparr>tr_date = date, tr_strategy = strat, tr_best_asset = best,
             tr_cash = c2, tr_total_value = c2 + hv,
             tr_current_return = (((c2 + hv) / ic) - 1) * 100,
             tr_portfolio = length (heap s)\<rparr>"
  have "trade_history s' = trade_history s @ [?r]"
    "value_history s' = value_history s @ [tr_total_value ?r]"
    "tr_portfolio ?r = length (heap s)"
    using th vh by simp_all
  moreover have "length (heap s') = Suc (length (heap s))" using hp by simp
  moreover have "heap s' ! length (heap s) = heap s' ! portfolio_addr"
  proof -
    have "heap s' ! length (heap s) = pf2" using hp by (simp add: nth_append)
    moreover have "heap s' ! portfolio_addr = pf2" using hp assms(2) by (simp add: heap_after_write)
    ultimately show ?thesis by simp
  qed
  moreover have "heap s' ! a = heap s ! a" if "a < length (heap s)" "a \<noteq> portfolio_addr" for a
    using hp that by (simp add: nth_append)
  ultimately show ?thesis by blast
qed

lemma run_steps_effect:
  "run_steps data ic bc sc ds s = Inr s' \<Longrightarrow> heap s \<noteq> [] \<Longrightarrow>
     (\<exists>rs. trade_history s' = trade_history s @ rs \<and> length rs = length ds
           \<and> value_history s' = value_history s @ map tr_total_value rs)
     \<and> length (heap s') = length (heap s) + length ds
     \<and> (\<forall>a. a < length (heap s) \<and> a \<noteq> portfolio_addr \<longrightarrow> heap s' ! a = heap s ! a)"
proof (induction ds arbitrary: s)
  case Nil
  then show ?case by simp
next
  case (Cons d ds)
  from Cons.prems(1) obtain s1 where
    1: "step data ic bc sc s d = Inr s1" and 2: "run_steps data ic bc sc ds s1 = Inr s'"
    by (auto simp: bind_err_eq_Inr)
  from step_effect [OF 1 Cons.prems(2)] obtain r where
    r: "trade_history s1 = trade_history s @ [r]"
       "value_history s1 = value_history s @ [tr_total_value r]"
    and l: "length (heap s1) = Suc (length (heap s))"
    and k: "\<forall>a. a < length (heap s) \<and> a \<noteq> portfolio_addr \<longrightarrow> heap s1 ! a = heap s ! a"
    by blast
  from l have ne: "heap s1 \<noteq> []" by auto
  from Cons.IH [OF 2 ne] obtain rs where
    rs: "trade_history s' = trade_history s1 @ rs" "length rs = length ds"
        "value_history s' = value_history s1 @ map tr_total_value rs"
    and l': "length (heap s') = length (heap s1) + length ds"
    and k': "\<forall>a. a < length (heap s1) \<and> a \<noteq> portfolio_addr \<longrightarrow> heap s' ! a = heap s1 ! a"
    by blast
  have "trade_history s' = trade_history s @ (r # rs) \<and> length (r # rs) = length (d # ds)
          \<and> value_history s' = value_history s @ map tr_total_value (r # rs)"
    using r rs by simp
  moreover have "length (heap s') = length (heap s) + length (d # ds)" using l l' by simp
  moreover have "\<forall>a. a < length (heap s) \<and> a \<noteq> portfolio_addr \<longrightarrow> heap s' ! a = heap s ! a"
    using k k' l by auto
  ultimately show ?case by blast
qed

lemma initial_state_simps:
  "heap (initial_state ic) \<noteq> []" "length (heap (initial_state ic)) = 1"
  "trade_history (initial_state ic) = []" "value_history (initial_state ic) = []"
  by (simp_all add: initial_state_def)

text \<open>
  Claim C9, as the code has it. When the simulator returns, there was at least one
  rebalancing date, there is one trade record per date, the final value is the total
  value of the last trade record, and the annual return is the percentage
  \<open>100 ((final / initial) powr (12 / num_steps) - 1)\<close>. Initial cash is taken positive:
  there the real quotient is the quotient the program computes.
\<close>

theorem final_value_and_annual_return:
  assumes "simulate_trading market dates initial_cash buy_commission sell_commission
             = Inr (final_value, annual_return)"
    and "0 < initial_cash"
  shows "\<exists>s. simulate_loop market dates initial_cash buy_commission sell_commission = Inr s
             \<and> dates \<noteq> []
             \<and> length (trade_history s) = length dates
             \<and> final_value = tr_total_value (last (trade_history s))
             \<and> annual_return =
                 100 * ((final_value / initial_cash) powr (12 / real (length dates)) - 1)"
proof -
  from assms(1) obtain s where
    s: "simulate_loop market dates initial_cash buy_commission sell_commission = Inr s"
    and ne: "value_history s \<noteq> []"
    and fv: "final_value = last (value_history s)"
    and ar: "annual_return =
               ((final_value / initial_cash) powr (1 / (real (length dates) / 12)) - 1) * 100"
    by (auto simp: simulate_trading_def bind_err_eq_Inr Let_def split: if_splits)
  from run_steps_effect [OF s [unfolded simulate_loop_def] initial_state_simps(1)]
  obtain rs where rs: "trade_history s = rs" "length rs = length dates"
    "value_history s = map tr_total_value rs"
    by (auto simp: initial_state_simps)
  from ne rs have d: "dates \<noteq> []" and r: "rs \<noteq> []" by auto
  have "final_value = tr_total_value (last (trade_history s))"
    using fv rs r by (simp add: last_map)
  moreover have "annual_return =
                 100 * ((final_value / initial_cash) powr (12 / real (length dates)) - 1)"
    using ar by simp
  ultimately show ?thesis using s d rs by auto
qed

text \<open>
  Claim C10. Take two steps \<open>i < j\<close> of a run. The history at the end of step \<open>i\<close> is
  a prefix of the history at the end of step \<open>j\<close> (records are appended, none is
  rewritten or removed). The snapshot of record \<open>i\<close> is an object of its own, at an
  address that is not the address of the live portfolio, and at the end of step \<open>j\<close>
  that object still holds the holdings the live portfolio had at the end of step \<open>i\<close>.
\<close>

theorem snapshot_not_aliased:
  assumes "simulate_loop market dates initial_cash buy_commission sell_commission = Inr sf"
    and "i < j" and "j < length dates"
  shows "\<exists>si sj.
           simulate_loop market (take (Suc i) dates) initial_cash buy_commission sell_commission = Inr si
           \<and> simulate_loop market (take (Suc j) dates) initial_cash buy_commission sell_commission = Inr sj
           \<and> trade_history si = take (Suc i) (trade_history sj)
           \<and> length (trade_history sj) = Suc j
           \<and> tr_portfolio (trade_history sj ! i) \<noteq> portfolio_addr
           \<and> tr_portfolio (trade_history sj ! i) \<noteq> tr_portfolio (trade_history sj ! j)
           \<and> tr_portfolio (trade_history sj ! i) < length (heap sj)
           \<and> heap sj ! tr_portfolio (trade_history sj ! i) = heap si ! portfolio_addr"
proof -
  let ?run = "run_steps (get_stock_data market (attack_assets @ safe_assets)) initial_cash
                buy_commission sell_commission"
  let ?s0 = "initial_state initial_cash"
  have split: "\<exists>s. ?run (take (Suc k) dates) ?s0 = Inr s
                 \<and> length (trade_history s) = Suc k
                 \<and> tr_portfolio (trade_history s ! k) = Suc k
                 \<and> length (heap s) = Suc (Suc k)
                 \<and> heap s ! Suc k = heap s ! portfolio_addr" if k: "k < length dates" for k
  proof -
    have "dates = take k dates @ [dates ! k] @ drop (Suc k) dates"
      using k by (simp add: id_take_nth_drop)
    then have "?run (take k dates @ [dates ! k] @ drop (Suc k) dates) ?s0 = Inr sf"
      using assms(1) by (simp add: simulate_loop_def)
    then obtain s1 s2 where
      1: "?run (take k dates) ?s0 = Inr s1" and
      2: "step (get_stock_data market (attack_assets @ safe_assets)) initial_cash
            buy_commission sell_commission s1 (dates ! k) = Inr s2"
      by (auto simp: run_steps_append bind_err_eq_Inr)
    from run_steps_effect [OF 1 initial_state_simps(1)] k
    have t1: "length (trade_history s1) = k" and h1: "length (heap s1) = Suc k"
      by (auto simp: initial_state_simps)
    from h1 have ne: "heap s1 \<noteq> []" by auto
    from step_effect [OF 2 ne] obtain r where
      "trade_history s2 = trade_history s1 @ [r]" "tr_portfolio r = length (heap s1)"
      "length (heap s2) = Suc (length (heap s1))"
      "heap s2 ! length (heap s1) = heap s2 ! portfolio_addr"
      by blast
    with t1 h1 have "length (trade_history s2) = Suc k" "tr_portfolio (trade_history s2 ! k) = Suc k"
      "length (heap s2) = Suc (Suc k)" "heap s2 ! Suc k = heap s2 ! portfolio_addr"
      by (simp_all add: nth_append)
    moreover have "?run (take (Suc k) dates) ?s0 = Inr s2"
      using 1 2 k by (simp add: take_Suc_conv_app_nth run_steps_append)
    ultimately show ?thesis by blast
  qed
  from assms(2,3) have i: "i < length dates" by simp
  from split [OF i] obtain si where
    si: "?run (take (Suc i) dates) ?s0 = Inr si" "length (trade_history si) = Suc i"
        "tr_portfolio (trade_history si ! i) = Suc i" "length (heap si) = Suc (Suc i)"
        "heap si ! Suc i = heap si ! portfolio_addr"
    by blast
  from split [OF assms(3)] obtain sj where
    sj: "?run (take (Suc j) dates) ?s0 = Inr sj" "length (trade_history sj) = Suc j"
        "tr_portfolio (trade_history sj ! j) = Suc j" "length (heap sj) = Suc (Suc j)"
    by blast
  have "take (Suc j) dates = take (Suc i) dates @ drop (Suc i) (take (Suc j) dates)"
    using assms(2) by (metis Suc_leI Suc_le_mono append_take_drop_id less_imp_le_nat min.absorb2 take_take min.commute)
  with sj(1) have "?run (take (Suc i) dates @ drop (Suc i) (take (Suc j) dates)) ?s0 = Inr sj"
    by simp
  with si(1) have rest: "?run (drop (Suc i) (take (Suc j) dates)) si = Inr sj"
    by (simp add: run_steps_append)
  from si(4) have ne: "heap si \<noteq> []" by auto
  from run_steps_effect [OF rest ne] obtain rs where
    rs: "trade_history sj = trade_history si @ rs"
    and keep: "\<forall>a. a < length (heap si) \<and> a \<noteq> portfolio_addr \<longrightarrow> heap sj ! a = heap si ! a"
    by blast
  have pre: "trade_history si = take (Suc i) (trade_history sj)" using rs si(2) by simp
  have rec: "trade_history sj ! i = trade_history si ! i" using rs si(2) by (simp add: nth_append)
  have addr: "tr_portfolio (trade_history sj ! i) = Suc i" using rec si(3) by simp
  have "heap sj ! Suc i = heap si ! Suc i" using keep si(4) by (simp add: portfolio_addr_def)
  with si(5) have same: "heap sj ! Suc i = heap si ! portfolio_addr" by simp
  show ?thesis
    apply (rule exI [of _ si], rule exI [of _ sj])
    using si(1) sj(1) pre sj(2) addr sj(3) sj(4) same assms(2)
    by (simp add: simulate_loop_def portfolio_addr_def)
qed

subsection \<open>A run of two steps, evaluated\<close>

lemma sub_months_eval2:
  "sub_months (2023, 4, 1) 1 = (2023, 3, 1)"
  "sub_months (2023, 4, 1) 3 = (2023, 1, 1)"
  "sub_months (2023, 4, 1) 6 = (2022, 10, 1)"
  "sub_months (2023, 4, 1) 12 = (2022, 4, 1)"
  by code_simp+

lemma example_ticker_scores1:
  "ticker_score example_data (2023, 3, 1) ''SPY'' = Inr (Score (19 / 10))"
  "ticker_score example_data (2023, 3, 1) ''EFA'' = Inr (Score 0)"
  "ticker_score example_data (2023, 3, 1) ''EEM'' = Inr (Score 0)"
  "ticker_score example_data (2023, 3, 1) ''AGG'' = Inr (Score 0)"
  "ticker_score example_data (2023, 3, 1) ''QQQ'' = Inr (Score 0)"
  "ticker_score example_data (2023, 3, 1) ''LQD'' = Inr (Score 0)"
  "ticker_score example_data (2023, 3, 1) ''IEF'' = Inr (Score 0)"
  "ticker_score example_data (2023, 3, 1) ''SHY'' = Inr (Score 0)"
  by (simp_all add: ticker_score_def resolver_eval example_data_simps sub_months_eval)

lemma example_ticker_scores2:
  "ticker_score example_data (2023, 4, 1) ''SPY'' = Inr (Score (7 / 10))"
  "ticker_score example_data (2023, 4, 1) ''EFA'' = Inr (Score 0)"
  "ticker_score example_data (2023, 4, 1) ''EEM'' = Inr (Score 0)"
  "ticker_score example_data (2023, 4, 1) ''AGG'' = Inr (Score 0)"
  "ticker_score example_data (2023, 4, 1) ''QQQ'' = Inr (Score 0)"
  "ticker_score example_data (2023, 4, 1) ''LQD'' = Inr (Score 0)"
  "ticker_score example_data (2023, 4, 1) ''IEF'' = Inr (Score 0)"
  "ticker_score example_data (2023, 4, 1) ''SHY'' = Inr (Score 0)"
  by (simp_all add: ticker_score_def resolver_eval example_data_simps sub_months_eval2)

lemma example_scores1:
  "calculate_momentum_scores example_data (2023, 3, 1) =
     Inr [(''SPY'', Score (19 / 10)), (''EFA'', Score 0), (''EEM'', Score 0), (''AGG'', Score 0),
          (''QQQ'', Score 0), (''LQD'', Score 0), (''IEF'', Score 0), (''SHY'', Score 0)]"
  by (simp add: calculate_momentum_scores_def example_data_simps(2) example_ticker_scores1)

lemma example_scores2:
  "calculate_momentum_scores example_data (2023, 4, 1) =
     Inr [(''SPY'', Score (7 / 10)), (''EFA'', Score 0), (''EEM'', Score 0), (''AGG'', Score 0),
          (''QQQ'', Score 0), (''LQD'', Score 0), (''IEF'', Score 0), (''SHY'', Score 0)]"
  by (simp add: calculate_momentum_scores_def example_data_simps(2) example_ticker_scores2)

lemma example_select:
  "select_asset [(''SPY'', Score (19 / 10)), (''EFA'', Score 0), (''EEM'', Score 0), (''AGG'', Score 0),
          (''QQQ'', Score 0), (''LQD'', Score 0), (''IEF'', Score 0), (''SHY'', Score 0)]
     = Inr (''SPY'', AttackInvest)"
  "select_asset [(''SPY'', Score (7 / 10)), (''EFA'', Score 0), (''EEM'', Score 0), (''AGG'', Score 0),
          (''QQQ'', Score 0), (''LQD'', Score 0), (''IEF'', Score 0), (''SHY'', Score 0)]
     = Inr (''SPY'', AttackInvest)"
  by (simp_all add: select_asset_def py_max_def attack_assets_def safe_assets_def
        dict_get_default_def dict_get_def less_score_def)

lemma example_ledger_price:
  "ledger_price example_data ''SPY'' (2023, 3, 1) = Inr 110"
  "ledger_price example_data ''SPY'' (2023, 4, 1) = Inr 110"
  "t \<in> set [''EFA'', ''EEM'', ''AGG'', ''QQQ'', ''LQD'', ''IEF'', ''SHY''] \<Longrightarrow>
     ledger_price example_data t (2023, 3, 1) = Inr 100"
  "t \<in> set [''EFA'', ''EEM'', ''AGG'', ''QQQ'', ''LQD'', ''IEF'', ''SHY''] \<Longrightarrow>
     ledger_price example_data t (2023, 4, 1) = Inr 100"
  by (auto simp: resolver_eval example_data_simps)

lemma example_sell1:
  "sell example_data (2023, 3, 1) (1 / 8) (map fst example_portfolio0) (1000, example_portfolio0)
     = Inr (1000, example_portfolio0)"
  by (simp add: example_portfolio0_def dict_get_def)

lemma example_sell2:
  "sell example_data (2023, 4, 1) (1 / 8) (map fst example_portfolio1) (10, example_portfolio1)
     = Inr (780, example_portfolio0)"
  by (simp add: example_portfolio1_def example_portfolio0_def dict_get_def example_ledger_price)

lemma example_buy1:
  "buy example_data (2023, 3, 1) (1 / 8) ''SPY'' (1000, example_portfolio0) = Inr (10, example_portfolio1)"
  by (simp add: buy_def example_portfolio1_def example_portfolio0_def dict_get_def example_ledger_price
        round_eval)

lemma example_buy2:
  "buy example_data (2023, 4, 1) (1 / 8) ''SPY'' (780, example_portfolio0) = Inr (75 / 2, example_portfolio2)"
  by (simp add: buy_def example_portfolio2_def example_portfolio0_def dict_get_def example_ledger_price
        round_eval)

lemma example_holdings_sum:
  "holdings_sum example_data (2023, 3, 1) example_portfolio1 (map fst example_portfolio1) 0 = Inr 880"
  "holdings_sum example_data (2023, 4, 1) example_portfolio2 (map fst example_portfolio2) 0 = Inr 660"
  by (simp_all add: example_portfolio1_def example_portfolio2_def dict_get_def example_ledger_price)

lemma example_initial_state:
  "initial_state 1000 = \<lparr>cash = 1000, heap = [example_portfolio0], value_history = [],
      trade_history = []\<rparr>"
  by (simp add: initial_state_def example_portfolio0_def attack_assets_def safe_assets_def)

lemma example_step1:
  "step example_data 1000 (1 / 8) (1 / 8) (initial_state 1000) (2023, 3, 1) = Inr example_state1"
  by (simp add: step_def example_initial_state example_scores1 example_select portfolio_addr_def
        example_sell1 example_buy1 example_holdings_sum example_state1_def example_record1_def Let_def)

lemma example_step2:
  "step example_data 1000 (1 / 8) (1 / 8) example_state1 (2023, 4, 1) = Inr example_state2"
  by (simp add: step_def example_state1_def example_scores2 example_select portfolio_addr_def
        example_sell2 example_buy2 example_holdings_sum example_state2_def example_record2_def Let_def)

lemma example_run:
  "simulate_loop example_market [] 1000 (1 / 8) (1 / 8) = Inr (initial_state 1000)"
  "simulate_loop example_market [(2023, 3, 1)] 1000 (1 / 8) (1 / 8) = Inr example_state1"
  "simulate_loop example_market [(2023, 3, 1), (2023, 4, 1)] 1000 (1 / 8) (1 / 8) = Inr example_state2"
  by (simp_all add: simulate_loop_def example_data_def [symmetric] example_step1 example_step2)

subsection \<open>The properties on the example run, and a run that aborts\<close>

theorem single_position_witness:
  "step example_data 1000 (1 / 8) (1 / 8) example_state1 (2023, 4, 1) = Inr example_state2
   \<and> heap example_state1 \<noteq> []
   \<and> map_of (heap example_state2 ! portfolio_addr) ''SPY'' = Some 6
   \<and> tr_best_asset (last (trade_history example_state2)) = ''SPY''
   \<and> map_of (heap example_state2 ! portfolio_addr) ''LQD'' = Some 0"
proof -
  have h2: "heap example_state1 \<noteq> []" by (simp add: example_state1_def)
  have b: "tr_best_asset (last (trade_history example_state2)) = ''SPY''"
    by (simp add: example_state2_def example_record2_def)
  have m: "map_of (heap example_state2 ! portfolio_addr) ''SPY'' = Some 6"
    by (simp add: example_state2_def portfolio_addr_def example_portfolio2_def)
  have z: "map_of (heap example_state2 ! portfolio_addr) ''LQD'' = Some 0"
    by (simp add: example_state2_def portfolio_addr_def example_portfolio2_def)
  from single_position [OF example_step2 h2] b
  have "\<forall>t q. map_of (heap example_state2 ! portfolio_addr) t = Some q \<and> 0 < q \<longrightarrow> t = ''SPY''"
    by simp
  with example_step2 h2 m b z show ?thesis by blast
qed

theorem liquidation_unconditional_witness:
  "step example_data 1000 (1 / 8) (1 / 8) example_state1 (2023, 4, 1) = Inr example_state2
   \<and> heap example_state1 \<noteq> []
   \<and> distinct (map fst (heap example_state1 ! portfolio_addr))
   \<and> tr_best_asset (last (trade_history example_state1)) = ''SPY''
   \<and> tr_best_asset (last (trade_history example_state2)) = ''SPY''
   \<and> sell example_data (2023, 4, 1) (1 / 8) (map fst (heap example_state1 ! portfolio_addr))
        (cash example_state1, heap example_state1 ! portfolio_addr)
       = Inr (10 + 8 * 110 * (1 - 1 / 8), example_portfolio0)
   \<and> buy example_data (2023, 4, 1) (1 / 8) ''SPY'' (10 + 8 * 110 * (1 - 1 / 8), example_portfolio0)
       = Inr (cash example_state2, heap example_state2 ! portfolio_addr)
   \<and> tr_total_value (last (trade_history example_state2))
       < tr_total_value (last (trade_history example_state1))"
proof -
  have h2: "heap example_state1 \<noteq> []" by (simp add: example_state1_def)
  have h3: "distinct (map fst (heap example_state1 ! portfolio_addr))"
    by (simp add: example_state1_def portfolio_addr_def example_portfolio1_def)
  have b1: "tr_best_asset (last (trade_history example_state1)) = ''SPY''"
    by (simp add: example_state1_def example_record1_def)
  have b2: "tr_best_asset (last (trade_history example_state2)) = ''SPY''"
    by (simp add: example_state2_def example_record2_def)
  have s: "sell example_data (2023, 4, 1) (1 / 8) (map fst (heap example_state1 ! portfolio_addr))
        (cash example_state1, heap example_state1 ! portfolio_addr)
       = Inr (10 + 8 * 110 * (1 - 1 / 8), example_portfolio0)"
    using example_sell2 by (simp add: example_state1_def portfolio_addr_def)
  from liquidation_unconditional [OF example_step2 h2 h3] obtain c1 pf1 where
    "sell example_data (2023, 4, 1) (1 / 8) (map fst (heap example_state1 ! portfolio_addr))
        (cash example_state1, heap example_state1 ! portfolio_addr) = Inr (c1, pf1)"
    "buy example_data (2023, 4, 1) (1 / 8) (tr_best_asset (last (trade_history example_state2))) (c1, pf1)
       = Inr (cash example_state2, heap example_state2 ! portfolio_addr)"
    by blast
  with s b2 have u: "buy example_data (2023, 4, 1) (1 / 8) ''SPY''
        (10 + 8 * 110 * (1 - 1 / 8), example_portfolio0)
       = Inr (cash example_state2, heap example_state2 ! portfolio_addr)"
    by simp
  have v: "tr_total_value (last (trade_history example_state2))
       < tr_total_value (last (trade_history example_state1))"
    by (simp add: example_state1_def example_state2_def example_record1_def example_record2_def)
  from example_step2 h2 h3 b1 b2 s u v show ?thesis by blast
qed

lemma example_simulate_trading:
  "simulate_trading example_market [(2023, 3, 1)] 1000 (1 / 8) (1 / 8)
     = Inr (890, ((890 / 1000) ^ 12 - 1) * 100)"
  by (simp add: simulate_trading_def example_run example_state1_def)

theorem final_value_and_annual_return_witness:
  "simulate_trading example_market [(2023, 3, 1)] 1000 (1 / 8) (1 / 8)
     = Inr (890, ((890 / 1000) ^ 12 - 1) * 100)
   \<and> (0::real) < 1000
   \<and> (\<exists>s. simulate_loop example_market [(2023, 3, 1)] 1000 (1 / 8) (1 / 8) = Inr s
          \<and> [(2023, 3, 1)] \<noteq> ([] :: date list)
          \<and> length (trade_history s) = length [(2023, 3, 1) :: date]
          \<and> (890::real) = tr_total_value (last (trade_history s))
          \<and> ((890 / 1000) ^ 12 - 1) * 100 =
              100 * (((890::real) / 1000) powr (12 / real (length [(2023, 3, 1) :: date])) - 1))"
proof -
  have h2: "(0::real) < 1000" by simp
  note c = final_value_and_annual_return [OF example_simulate_trading h2]
  show ?thesis using example_simulate_trading h2 c by blast
qed

text \<open>
  The annual return of the example run (one step, 1000 shrunk to 890) is not
  \<open>(final / initial) powr (12 / 1) - 1\<close>: the value returned is 100 times that.
\<close>

theorem annual_return_counterexample:
  "simulate_trading example_market [(2023, 3, 1)] 1000 (1 / 8) (1 / 8)
     = Inr (890, ((890 / 1000) ^ 12 - 1) * 100)
   \<and> ((890 / 1000) ^ 12 - 1) * 100 \<noteq> ((890::real) / 1000) powr (12 / 1) - 1"
proof -
  have "((890::real) / 1000) powr (12 / 1) = (890 / 1000) ^ 12" by simp
  moreover have "((890 / 1000) ^ 12 - 1) * 100 \<noteq> ((890::real) / 1000) ^ 12 - 1"
  proof -
    have "((890::real) / 1000) ^ 12 < 1" by (subst power_less_one_iff) simp_all
    moreover have "(x - 1) * 100 \<noteq> x - 1" if "x < 1" for x :: real
    proof
      assume "(x - 1) * 100 = x - 1"
      then have "99 * (x - 1) = 0" by (simp add: algebra_simps)
      then have "x = 1" by simp
      with that show False by simp
    qed
    ultimately show ?thesis by blast
  qed
  ultimately show ?thesis using example_simulate_trading by simp
qed

theorem snapshot_not_aliased_witness:
  "simulate_loop example_market [(2023, 3, 1), (2023, 4, 1)] 1000 (1 / 8) (1 / 8) = Inr example_state2
   \<and> (0::nat) < 1 \<and> 1 < length [(2023, 3, 1) :: date, (2023, 4, 1)]
   \<and> simulate_loop example_market (take (Suc 0) [(2023, 3, 1), (2023, 4, 1)]) 1000 (1 / 8) (1 / 8)
       = Inr example_state1
   \<and> heap example_state1 ! portfolio_addr = example_portfolio1
   \<and> heap example_state2 ! portfolio_addr = example_portfolio2
   \<and> heap example_state2 ! tr_portfolio (trade_history example_state2 ! 0) = example_portfolio1
   \<and> (\<exists>si sj.
         simulate_loop example_market (take (Suc 0) [(2023, 3, 1), (2023, 4, 1)]) 1000 (1 / 8) (1 / 8) = Inr si
         \<and> simulate_loop example_market (take (Suc 1) [(2023, 3, 1), (2023, 4, 1)]) 1000 (1 / 8) (1 / 8) = Inr sj
         \<and> trade_history si = take (Suc 0) (trade_history sj)
         \<and> length (trade_history sj) = Suc 1
         \<and> tr_portfolio (trade_history sj ! 0) \<noteq> portfolio_addr
         \<and> tr_portfolio (trade_history sj ! 0) \<noteq> tr_portfolio (trade_history sj ! 1)
         \<and> tr_portfolio (trade_history sj ! 0) < length (heap sj)
         \<and> heap sj ! tr_portfolio (trade_history sj ! 0) = heap si ! portfolio_addr)"
proof -
  have h1: "simulate_loop example_market [(2023, 3, 1), (2023, 4, 1)] 1000 (1 / 8) (1 / 8)
              = Inr example_state2"
    by (simp add: example_run)
  have h2: "(0::nat) < 1" by simp
  have h3: "1 < length [(2023, 3, 1) :: date, (2023, 4, 1)]" by simp
  have e1: "simulate_loop example_market (take (Suc 0) [(2023, 3, 1), (2023, 4, 1)]) 1000 (1 / 8) (1 / 8)
       = Inr example_state1"
    by (simp add: example_run)
  have e2: "heap example_state1 ! portfolio_addr = example_portfolio1"
    "heap example_state2 ! portfolio_addr = example_portfolio2"
    "heap example_state2 ! tr_portfolio (trade_history example_state2 ! 0) = example_portfolio1"
    by (simp_all add: example_state1_def example_state2_def portfolio_addr_def example_record1_def)
  note c = snapshot_not_aliased [OF h1 h2 h3]
  show ?thesis using h1 h2 h3 e1 e2 c by blast
qed

lemma late_data_simps:
  "index late_data = [(2021, 12, 1), (2022, 6, 1), (2023, 3, 1)]"
  "columns late_data = [''SPY'', ''EFA'', ''EEM'', ''AGG'', ''QQQ'', ''LQD'', ''IEF'', ''SHY'']"
  "cell late_data t d = (if t = ''QQQ'' \<and> d = (2021, 12, 1) then None else Some 100)"
  by (simp_all add: late_data_def late_market_def get_stock_data_def attack_assets_def safe_assets_def)

lemma late_ticker_scores:
  "ticker_score late_data (2023, 3, 1) ''SPY'' = Inr (Score 0)"
  "ticker_score late_data (2023, 3, 1) ''EFA'' = Inr (Score 0)"
  "ticker_score late_data (2023, 3, 1) ''EEM'' = Inr (Score 0)"
  "ticker_score late_data (2023, 3, 1) ''AGG'' = Inr (Score 0)"
  "ticker_score late_data (2023, 3, 1) ''QQQ'' = Inl KeyError"
  by (simp_all add: ticker_score_def resolver_eval late_data_simps sub_months_eval)

text \<open>
  Claim C6 fails on the code. In \<open>late_market\<close> the ticker QQQ is first listed on
  2022-06-01, so at the evaluation date 2023-03-01 its observation of 12 months before
  does not exist: the as-of lookup returns NaT, \<^verbatim>\<open>data.loc\<close> raises KeyError, and the
  scorer and the whole run stop with that error, although the seven other tickers have
  full histories. The branch of line 46 that assigns \<^verbatim>\<open>-np.inf\<close> is never reached
  (lemma \<open>ticker_score_never_neg_inf\<close>).
\<close>

theorem missing_history_aborts:
  "get_closest_date late_data ''QQQ'' (sub_months (2023, 3, 1) 12) = Inr None
   \<and> ticker_score late_data (2023, 3, 1) ''SPY'' = Inr (Score 0)
   \<and> ticker_score late_data (2023, 3, 1) ''QQQ'' = Inl KeyError
   \<and> calculate_momentum_scores late_data (2023, 3, 1) = Inl KeyError
   \<and> simulate_trading late_market [(2023, 3, 1)] 1000 (1 / 10) (1 / 10) = Inl KeyError"
proof -
  have g: "get_closest_date late_data ''QQQ'' (sub_months (2023, 3, 1) 12) = Inr None"
    by (simp add: resolver_eval late_data_simps sub_months_eval)
  have c: "calculate_momentum_scores late_data (2023, 3, 1) = Inl KeyError"
    by (simp add: calculate_momentum_scores_def late_data_simps(2) late_ticker_scores)
  then have "step late_data 1000 (1 / 10) (1 / 10) (initial_state 1000) (2023, 3, 1) = Inl KeyError"
    by (simp add: step_def)
  then have "simulate_trading late_market [(2023, 3, 1)] 1000 (1 / 10) (1 / 10) = Inl KeyError"
    by (simp add: simulate_trading_def simulate_loop_def late_data_def [symmetric])
  with g c late_ticker_scores show ?thesis by simp
qed

subsection \<open>The purchase in double arithmetic\<close>

lemma double_tenth_literal: "round_double (1 / 10) = double_tenth"
  by (simp add: round_eval double_tenth_def)

lemma flat_data_simps:
  "index flat_data = [(2022, 3, 1), (2023, 3, 1)]"
  "columns flat_data = [''SPY'', ''EFA'', ''EEM'', ''AGG'', ''QQQ'', ''LQD'', ''IEF'', ''SHY'']"
  "cell flat_data t d = Some 10"
  by (simp_all add: flat_data_def flat_market_def get_stock_data_def attack_assets_def safe_assets_def)

lemma flat_ticker_scores:
  "t \<in> set (columns flat_data) \<Longrightarrow> ticker_score flat_data (2023, 3, 1) t = Inr (Score 0)"
  by (simp add: ticker_score_def resolver_eval flat_data_simps sub_months_eval)

lemma flat_scores:
  "calculate_momentum_scores flat_data (2023, 3, 1) =
     Inr [(''SPY'', Score 0), (''EFA'', Score 0), (''EEM'', Score 0), (''AGG'', Score 0),
          (''QQQ'', Score 0), (''LQD'', Score 0), (''IEF'', Score 0), (''SHY'', Score 0)]"
  by (simp add: calculate_momentum_scores_def flat_data_simps(2) flat_ticker_scores)

lemma flat_select:
  "select_asset [(''SPY'', Score 0), (''EFA'', Score 0), (''EEM'', Score 0), (''AGG'', Score 0),
          (''QQQ'', Score 0), (''LQD'', Score 0), (''IEF'', Score 0), (''SHY'', Score 0)]
     = Inr (''LQD'', SafeInvest)"
  by (simp add: select_asset_def py_max_def attack_assets_def safe_assets_def
        dict_get_default_def dict_get_def less_score_def)

lemma flat_ledger_price:
  "t \<in> set (columns flat_data) \<Longrightarrow> ledger_price flat_data t (2023, 3, 1) = Inr 10"
  by (simp add: resolver_eval flat_data_simps)

lemma flat_sell:
  "sell flat_data (2023, 3, 1) double_tenth (map fst example_portfolio0) (968, example_portfolio0)
     = Inr (968, example_portfolio0)"
  by (simp add: example_portfolio0_def dict_get_def)

lemma flat_buy:
  "buy flat_data (2023, 3, 1) double_tenth ''LQD'' (968, example_portfolio0)
     = Inr (- (1 / 2 ^ 43), flat_portfolio)"
proof -
  have p: "ledger_price flat_data ''LQD'' (2023, 3, 1) = Inr 10"
    by (simp add: flat_ledger_price flat_data_simps)
  have n: "''LQD'' \<noteq> []" by simp
  have m: "map_of example_portfolio0 ''LQD'' = Some 0" by (simp add: example_portfolio0_def)
  have d: "round_double (10 * round_double (1 + double_tenth)) = 11"
    by (simp add: round_eval double_tenth_def)
  have q: "floor_divide 968 11 = 88" by (simp add: floor_divide_def)
  have t: "round_double (round_double (88 * 10) * round_double (1 + double_tenth)) = 968 + 1 / 2 ^ 43"
    by (simp add: round_eval double_tenth_def)
  have c: "round_double (968 - (968 + 1 / 2 ^ 43)) = - (1 / 2 ^ 43)" by (simp add: round_eval)
  have h: "round_double (0 + 88) = 88" by (simp add: round_eval)
  have u: "AList.update ''LQD'' 88 example_portfolio0 = flat_portfolio"
    by (simp add: example_portfolio0_def flat_portfolio_def)
  show ?thesis
    unfolding buy_eq [OF p n m] d q t c h u ..
qed

lemma flat_holdings_sum:
  "holdings_sum flat_data (2023, 3, 1) flat_portfolio (map fst flat_portfolio) 0 = Inr 880"
  by (simp add: flat_portfolio_def dict_get_def flat_ledger_price flat_data_simps)

lemma flat_initial_state:
  "initial_state 968 = \<lparr>cash = 968, heap = [example_portfolio0], value_history = [],
      trade_history = []\<rparr>"
  by (simp add: initial_state_def example_portfolio0_def attack_assets_def safe_assets_def)

lemma flat_step:
  "step flat_data 968 double_tenth double_tenth (initial_state 968) (2023, 3, 1) = Inr flat_state"
  by (simp add: step_def flat_initial_state flat_scores flat_select portfolio_addr_def
        flat_sell flat_buy flat_holdings_sum flat_state_def Let_def)

lemma flat_run:
  "simulate_loop flat_market [(2023, 3, 1)] 968 double_tenth double_tenth = Inr flat_state"
  by (simp add: simulate_loop_def flat_data_def [symmetric] flat_step)

text \<open>
  Claim C2 fails on the code. With cash 968, a price of 10 and the commission
  \<^verbatim>\<open>0.1\<close>, the divisor of line 97 is rounded down to 11, so 88 units are bought; line 98
  prices them at \<open>968 + 2^-43\<close>, more than the cash. The quantity bought costs more
  than the cash (also in exact arithmetic: \<open>88 * 10 * (1 + commission) > 968\<close>), the
  amount debited is not that product, and cash ends below 0.
\<close>

theorem purchase_exceeds_cash:
  "round_double (1 / 10) = double_tenth
   \<and> ledger_price flat_data ''LQD'' (2023, 3, 1) = Inr 10
   \<and> buy flat_data (2023, 3, 1) double_tenth ''LQD'' (968, example_portfolio0)
       = Inr (968 - (968 + 1 / 2 ^ 43), flat_portfolio)
   \<and> map_of flat_portfolio ''LQD'' = Some 88
   \<and> 968 < 88 * 10 * (1 + double_tenth)
   \<and> 968 + 1 / 2 ^ 43 \<noteq> 88 * 10 * (1 + double_tenth)"
proof -
  have p: "ledger_price flat_data ''LQD'' (2023, 3, 1) = Inr 10"
    by (simp add: flat_ledger_price flat_data_simps)
  have m: "map_of flat_portfolio ''LQD'' = Some 88" by (simp add: flat_portfolio_def)
  have g: "968 < 88 * 10 * (1 + double_tenth)" by (simp add: double_tenth_def)
  have n: "968 + 1 / 2 ^ 43 \<noteq> 88 * 10 * (1 + double_tenth)" by (simp add: double_tenth_def)
  show ?thesis using double_tenth_literal p flat_buy m g n by simp
qed

text \<open>
  Claim C3 fails on the code. The run over the single date 2023-03-01 with initial cash
  968, both commissions \<^verbatim>\<open>0.1\<close> and every price 10 is inside the conditions of the
  claim, and it ends its purchase with cash \<open>- 2^-43\<close>: the sale leaves cash at 968 and
  the purchase debits \<open>968 + 2^-43\<close>.
\<close>

theorem cash_goes_negative:
  "(0::real) \<le> 968 \<and> 0 \<le> double_tenth \<and> double_tenth < 1
   \<and> cell flat_data ''LQD'' (2022, 3, 1) = Some 10
   \<and> sell flat_data (2023, 3, 1) double_tenth (map fst example_portfolio0) (968, example_portfolio0)
       = Inr (968, example_portfolio0)
   \<and> simulate_loop flat_market [(2023, 3, 1)] 968 double_tenth double_tenth = Inr flat_state
   \<and> cash flat_state = - (1 / 2 ^ 43)
   \<and> cash flat_state < 0"
proof -
  have "0 \<le> double_tenth" "double_tenth < 1" by (simp_all add: double_tenth_def)
  moreover have "cash flat_state = - (1 / 2 ^ 43)" "cash flat_state < 0"
    by (simp_all add: flat_state_def)
  ultimately show ?thesis using flat_sell flat_run by (simp add: flat_data_simps)
qed

text \<open>
  For the ticker LQD of \<open>example_gap\<close>, whose first observation is on 2023-01-02, the
  resolver called at 2023-01-01 does not fail: it returns, and what it returns is NaT.
\<close>

theorem resolver_returns_nat_counterexample:
  "dropna_index example_gap ''LQD'' = [(2023, 1, 2), (2023, 1, 5)]
   \<and> get_closest_date example_gap ''LQD'' (2023, 1, 1) = Inr None
   \<and> get_closest_date example_gap ''LQD'' (2023, 1, 1) \<noteq> Inl KeyError"
  by (simp add: example_gap_def resolver_eval)

end
